theory Spec2Isabelle
  imports Complex_Main "HOL-Library.Log_Nat" "HOL-Library.Multiset"
begin

section \<open>Data model\<close>

text \<open>
  A Python \<open>str\<close> is held as the bytes of its UTF-8 encoding, so that two strings are
  equal exactly when the Python strings are. The letters beyond ASCII that the program's
  literals use are named here.
\<close>

definition n_tilde :: string where "n_tilde = [CHR 0xC3, CHR 0xB1]"
definition a_acute :: string where "a_acute = [CHR 0xC3, CHR 0xA1]"
definition e_acute :: string where "e_acute = [CHR 0xC3, CHR 0xA9]"
definition i_acute :: string where "i_acute = [CHR 0xC3, CHR 0xAD]"
definition o_acute :: string where "o_acute = [CHR 0xC3, CHR 0xB3]"
definition u_acute :: string where "u_acute = [CHR 0xC3, CHR 0xBA]"
definition micro_sign :: string where "micro_sign = [CHR 0xC2, CHR 0xB5]"
definition superscript_3 :: string where "superscript_3 = [CHR 0xC2, CHR 0xB3]"
definition en_dash :: string where "en_dash = [CHR 0xE2, CHR 0x80, CHR 0x93]"
definition cross_mark :: string where "cross_mark = [CHR 0xE2, CHR 0x9D, CHR 0x8C]"
definition magnifier :: string where "magnifier = [CHR 0xF0, CHR 0x9F, CHR 0x94, CHR 0x8E]"
definition apostrophe :: string where "apostrophe = [CHR 0x27]"

text \<open>
  A cell of a pandas table, as the Python object that reading the cell gives: \<open>None\<close>,
  the float \<open>nan\<close>, an integer, a finite float (held as the rational number it denotes)
  or a string. \<open>None\<close> and \<open>nan\<close> are the two missing values (\<open>isna\<close>), and they are
  different objects.
\<close>

datatype cell = NoneV | NaN | IntV int | FloatV rat | StrV string

definition isna :: "cell \<Rightarrow> bool" where
  "isna c \<longleftrightarrow> c = NoneV \<or> c = NaN"

text \<open>
  The row index of a table is either a \<open>DatetimeIndex\<close> or an index of any other kind
  (\<open>isinstance(df.index, pd.DatetimeIndex)\<close> tells them apart).
\<close>

datatype pd_index = DatetimeIndex "int list" | PlainIndex "cell list"

text \<open>
  A \<open>DataFrame\<close>: its row index and its columns, in order, each a label with the cells
  of the column. Column labels are taken to be unique, as they are in the tables this
  program builds and reads.
\<close>

record dataframe =
  index :: pd_index
  cols :: "(string \<times> cell list) list"

definition columns :: "dataframe \<Rightarrow> string list" where
  "columns df = map fst (cols df)"

definition RangeIndex :: "nat \<Rightarrow> pd_index" where
  "RangeIndex n = PlainIndex (map (\<lambda>i. IntV (int i)) [0..<n])"

section \<open>Float arithmetic\<close>

text \<open>
  Python's \<open>float\<close> is an IEEE 754 double: every operation returns the double nearest to
  the exact result, ties going to the even significand. \<open>rd\<close> is that rounding, on 53-bit
  significands. The exponent range is not bounded: the quotients and products of this
  program stay far from overflow and underflow.
\<close>

definition round_half_even :: "rat \<Rightarrow> int" where
  "round_half_even y =
     (let f = \<lfloor>y\<rfloor>; d = y - of_int f
      in if d < 1 / 2 then f
         else if 1 / 2 < d then f + 1
         else if even f then f else f + 1)"

text \<open>\<open>binade x\<close> is the \<open>k\<close> with \<open>2 ^ k \<le> |x| < 2 ^ (k + 1)\<close>, for \<open>x \<noteq> 0\<close>.\<close>

definition binade :: "rat \<Rightarrow> int" where
  "binade x =
     (let (p, q) = quotient_of \<bar>x\<bar>; k = bitlen p - bitlen q
      in if 2 powi k \<le> \<bar>x\<bar> then k else k - 1)"

definition rd :: "rat \<Rightarrow> rat" where
  "rd x =
     (if x = 0 then 0
      else let e = binade x - 52
           in of_int (round_half_even (x / 2 powi e)) * 2 powi e)"

definition float_of_int :: "int \<Rightarrow> rat" where
  "float_of_int i = rd (of_int i)"

definition fdiv :: "rat \<Rightarrow> rat \<Rightarrow> rat" where
  "fdiv a b = rd (a / b)"

definition fmul :: "rat \<Rightarrow> rat \<Rightarrow> rat" where
  "fmul a b = rd (a * b)"

definition fadd :: "rat \<Rightarrow> rat \<Rightarrow> rat" where
  "fadd a b = rd (a + b)"

text \<open>The factors \<open>1 - u\<close> and \<open>1 + u\<close> of one rounding, \<open>u\<close> the unit roundoff.\<close>

definition ulo :: rat where
  "ulo = 1 - 1 / 2 ^ 53"

definition uhi :: rat where
  "uhi = 1 + 1 / 2 ^ 53"

section \<open>data_interpretation.py\<close>

subsection \<open>show_ica_health_table\<close>

definition show_ica_health_table :: dataframe where
  "show_ica_health_table =
     \<lparr> index = RangeIndex 5,
       cols =
        [(''Categor'' @ i_acute @ ''a ICA'',
            [StrV ''Buena'',
             StrV ''Moderada'',
             StrV (''Da'' @ n_tilde @ ''ina para grupos sensibles''),
             StrV (''Muy da'' @ n_tilde @ ''ina''),
             StrV ''Peligrosa'']),
         (''Rango PM2.5 ('' @ micro_sign @ ''g/m'' @ superscript_3 @ '')'',
            [StrV (''0'' @ en_dash @ ''12''),
             StrV (''12.1'' @ en_dash @ ''35.4''),
             StrV (''35.5'' @ en_dash @ ''55.4''),
             StrV (''55.5'' @ en_dash @ ''150.4''),
             StrV ''>150.4'']),
         (''Impacto en la salud'',
            [StrV ''Sin efectos visibles'',
             StrV (''Leve irritaci'' @ o_acute @ ''n en personas sensibles''),
             StrV ''Riesgo respiratorio leve'',
             StrV (''Efectos respiratorios y card'' @ i_acute @ ''acos''),
             StrV (''Riesgo alto para toda la poblaci'' @ o_acute @ ''n'')])] \<rparr>"

subsection \<open>category_distribution\<close>

text \<open>
  \<open>Series.value_counts\<close> counts with a hash table whose keys are the cells. Two cells are
  the same key when Python hashes them alike and finds them equal: a number is a key by
  its value, whether it is an integer or a float (\<open>1 == 1.0\<close>); a string is equal to
  itself only; \<open>None\<close> is equal to \<open>None\<close> only; and all \<open>nan\<close> are one key, which is not
  the key \<open>None\<close>. \<open>key_of c\<close> is a representative of the key of \<open>c\<close>: two cells are the
  same key exactly when their representatives are equal.
\<close>

definition key_of :: "cell \<Rightarrow> cell" where
  "key_of c = (case c of IntV i \<Rightarrow> FloatV (of_int i) | _ \<Rightarrow> c)"

text \<open>
  The keys of a column in the order of their first appearance, each as the cell that
  appeared first with that key.
\<close>

fun uniques :: "cell list \<Rightarrow> cell list" where
  "uniques [] = []"
| "uniques (x # xs) = x # filter (\<lambda>y. key_of y \<noteq> key_of x) (uniques xs)"

text \<open>The number of cells of a column with the key of \<open>c\<close>.\<close>

definition count_key :: "cell list \<Rightarrow> cell \<Rightarrow> nat" where
  "count_key xs c = length (filter (\<lambda>x. key_of x = key_of c) xs)"

text \<open>
  \<open>Series.value_counts(dropna=...)\<close>: one entry per key with the number of its
  occurrences, the most frequent first; entries of equal count stay in the order of
  first appearance. With \<open>dropna=True\<close> the missing cells are left out before counting;
  with \<open>dropna=False\<close> \<open>None\<close> and \<open>nan\<close> are keys like the others.
\<close>

definition value_counts :: "bool \<Rightarrow> cell list \<Rightarrow> (cell \<times> int) list" where
  "value_counts dropna xs =
     (let ys = (if dropna then filter (\<lambda>c. \<not> isna c) xs else xs)
      in sort_key (\<lambda>r. - snd r) (map (\<lambda>c. (c, int (count_key ys c))) (uniques ys)))"

definition msg_no_category :: string where
  "msg_no_category =
     '' No se encontr'' @ o_acute @ '' la columna '' @ apostrophe @ ''ica_category'' @ apostrophe
       @ ''. Aseg'' @ u_acute @ ''rate de ejecutar la secci'' @ o_acute
       @ ''n de procesamiento de datos.''"

text \<open>
  \<open>(conteo / conteo.sum()) * 100\<close>, element by element: the integer count and the
  integer total become floats, are divided, and the quotient is multiplied by 100.
\<close>

definition percent :: "int \<Rightarrow> int \<Rightarrow> rat" where
  "percent c suma = fmul (fdiv (float_of_int c) (float_of_int suma)) 100"

text \<open>
  A total of 0 is the sum of no counts (every count is positive), so the division by 0
  is never computed on a row.
\<close>

definition percentages :: "int list \<Rightarrow> cell list" where
  "percentages conteo =
     (let suma = sum_list conteo
      in map (\<lambda>c. if suma = 0 then NaN else FloatV (percent c suma)) conteo)"

text \<open>
  The function prints and returns: the model returns the printed lines and the returned
  value, \<open>None\<close> for Python's \<open>None\<close>.
\<close>

definition label_categoria :: string where
  "label_categoria = ''Categor'' @ i_acute @ ''a''"

definition category_distribution :: "dataframe \<Rightarrow> string \<Rightarrow> string list \<times> dataframe option" where
  "category_distribution df_clean cat_col =
     (case map_of (cols df_clean) cat_col of
        None \<Rightarrow> ([msg_no_category], None)
      | Some xs \<Rightarrow>
          let counts = value_counts False xs;
              conteo = map snd counts
          in ([], Some \<lparr> index = RangeIndex (length counts),
                         cols = [(label_categoria, map fst counts),
                                 (''conteo'', map IntV conteo),
                                 (''porcentaje'', percentages conteo)] \<rparr>))"

section \<open>data_visualization.py\<close>

text \<open>
  The renderers act on the screen, the console and the file system. The model returns
  what they do, in order, as a list of events. Calls that only set labels, titles, grids
  and the layout are left out, as are the parameters \<open>figsize\<close> and \<open>titulo\<close> that only
  feed them. An event of drawing records that the call is made with these arguments:
  what matplotlib and seaborn do inside the call, with the data of the columns, is not
  modelled.
\<close>

type_synonym series = "(string \<times> rat option) list"

type_synonym corr_matrix = "(string \<times> series) list"

datatype event =
    Print string
  | PrintCorr string rat
  | Figure
  | PlotLine string
  | Barh "string list" "int list" "string list"
  | Text int nat int "rat option"
  | HeatmapCorr corr_matrix
  | HeatmapHourly string
  | Scatter string string bool
  | Savefig string
  | Show

text \<open>
  \<^item> \<open>Print s\<close>: \<open>print(s)\<close>; \<open>PrintCorr k v\<close>: \<open>print(f" - {k}: {v:.2f}")\<close>.
  \<^item> \<open>Figure\<close>: \<open>plt.figure\<close> or \<open>plt.subplots\<close>.
  \<^item> \<open>PlotLine col\<close>: \<open>ax.plot(df.index, df[col], label=col.upper(), ...)\<close>.
  \<^item> \<open>Barh labels widths colors\<close>: \<open>ax.barh\<close> with its tick labels.
  \<^item> \<open>Text x i v r\<close>: \<open>ax.text(x, i, f"{v} ({r:.1%})")\<close>; \<open>r = None\<close> is \<open>nan\<close>.
  \<^item> \<open>HeatmapCorr m\<close>, \<open>HeatmapHourly col\<close>: \<open>sns.heatmap\<close> of a correlation matrix, of
    the day-by-hour means of a column (the pivot itself is not modelled).
  \<^item> \<open>Scatter x y by_category\<close>: \<open>plt.scatter\<close>, coloured by category or not.
  \<^item> \<open>Savefig path\<close>: \<open>plt.savefig(path, ...)\<close>; \<open>Show\<close>: \<open>plt.show()\<close>.
\<close>

datatype py_error = AttributeError | ValueError | TypeError

definition CONTAMINANTES :: "string list" where
  "CONTAMINANTES = [''co'', ''no'', ''no2'', ''o3'', ''so2'', ''pm2_5'', ''pm10'', ''nh3'']"

text \<open>\<open>if save_path: plt.savefig(save_path, ...)\<close>: \<open>None\<close> and the empty string are falsy.\<close>

definition savefig :: "string option \<Rightarrow> event list" where
  "savefig save_path =
     (case save_path of
        None \<Rightarrow> []
      | Some path \<Rightarrow> if path = [] then [] else [Savefig path])"

subsection \<open>ensure_datetime_index\<close>

text \<open>The rows of a column that a boolean selection keeps.\<close>

definition keep_rows :: "bool list \<Rightarrow> 'a list \<Rightarrow> 'a list" where
  "keep_rows valid xs = map snd (filter fst (zip valid xs))"

text \<open>
  \<open>pd.to_datetime(..., errors='coerce')\<close> is a parameter: \<open>to_datetime ds\<close> is the column
  of the parsed timestamps (nanoseconds since the epoch) of the column \<open>ds\<close>, \<open>None\<close>
  (\<open>NaT\<close>) where a cell does not parse. \<open>dropna\<close> removes the rows whose date is \<open>NaT\<close>,
  and \<open>set_index('date')\<close> makes the column the index and removes it from the columns.
\<close>

definition ensure_datetime_index :: "(cell list \<Rightarrow> int option list) \<Rightarrow> dataframe \<Rightarrow> dataframe" where
  "ensure_datetime_index to_datetime df =
     (case index df of
        DatetimeIndex _ \<Rightarrow> df
      | PlainIndex _ \<Rightarrow>
          (case map_of (cols df) ''date'' of
             None \<Rightarrow> df
           | Some ds \<Rightarrow>
               let dates = to_datetime ds;
                   valid = map (\<lambda>d. d \<noteq> None) dates
               in \<lparr> index = DatetimeIndex (List.map_filter (\<lambda>d. d) dates),
                    cols = map (\<lambda>(c, xs). (c, keep_rows valid xs))
                             (filter (\<lambda>(c, xs). c \<noteq> ''date'') (cols df)) \<rparr>))"

subsection \<open>plot_time_series\<close>

definition plot_time_series ::
  "(cell list \<Rightarrow> int option list) \<Rightarrow> dataframe \<Rightarrow> string list \<Rightarrow> string option \<Rightarrow> event list" where
  "plot_time_series to_datetime df columnas save_path =
     (let df' = ensure_datetime_index to_datetime df
      in [Figure]
         @ map PlotLine (filter (\<lambda>col. col \<in> set (columns df')) columnas)
         @ savefig save_path
         @ [Show])"

subsection \<open>plot_ica_distribution\<close>

definition msg_no_ica_category :: string where
  "msg_no_ica_category =
     cross_mark @ '' La columna '' @ apostrophe @ ''ica_category'' @ apostrophe
       @ '' no existe. Ejecuta add_ica_category() primero.''"

definition orden_ica :: "string list" where
  "orden_ica =
     [''Buena'',
      ''Moderada'',
      ''Da'' @ n_tilde @ ''ina para grupos sensibles'',
      ''Da'' @ n_tilde @ ''ina'',
      ''Muy da'' @ n_tilde @ ''ina'',
      ''Peligrosa'']"

text \<open>\<open>Series.reindex(labels, fill_value=...)\<close> on the counts of a column.\<close>

definition reindex :: "string list \<Rightarrow> (cell \<times> int) list \<Rightarrow> int \<Rightarrow> int list" where
  "reindex labels counts fill_value =
     map (\<lambda>l. case map_of counts (StrV l) of None \<Rightarrow> fill_value | Some n \<Rightarrow> n) labels"

text \<open>
  \<open>ICA_COLORS\<close> comes from \<open>data_processing.get_ica_colors()\<close>, a module that is not part
  of these sources: the dictionary is a parameter. \<open>v / total\<close> divides two numpy
  integers: both become floats, and \<open>0 / 0\<close> is \<open>nan\<close>.
\<close>

definition plot_ica_distribution ::
  "(string \<Rightarrow> string option) \<Rightarrow> dataframe \<Rightarrow> string option \<Rightarrow> event list" where
  "plot_ica_distribution ICA_COLORS df save_path =
     (case map_of (cols df) ''ica_category'' of
        None \<Rightarrow> [Print msg_no_ica_category]
      | Some xs \<Rightarrow>
          let counts = reindex orden_ica (value_counts True xs) 0;
              colors = map (\<lambda>cat. case ICA_COLORS cat of None \<Rightarrow> ''#CCCCCC'' | Some c \<Rightarrow> c) orden_ica;
              suma = sum_list counts
          in [Figure, Barh orden_ica counts colors]
             @ map (\<lambda>(i, v). Text (v + 1) i v
                      (if suma = 0 then None
                       else Some (fdiv (float_of_int v) (float_of_int suma))))
                 (enumerate 0 counts)
             @ savefig save_path
             @ [Show])"

subsection \<open>plot_correlation_matrix\<close>

definition msg_two_columns :: string where
  "msg_two_columns =
     cross_mark @ '' Se necesitan al menos 2 columnas para calcular correlaciones.''"

definition msg_top :: string where
  "msg_top = magnifier @ '' Correlaciones m'' @ a_acute @ ''s altas con PM2.5:''"

text \<open>\<open>df[columnas]\<close>, for labels that are columns of the table.\<close>

definition select_columns :: "dataframe \<Rightarrow> string list \<Rightarrow> (string \<times> cell list) list" where
  "select_columns df columnas =
     List.map_filter (\<lambda>c. map_option (Pair c) (map_of (cols df) c)) columnas"

text \<open>
  \<open>DataFrame.corr()\<close> first turns the table into an array of floats
  (\<open>to_numpy(dtype=float, na_value=nan)\<close>): an integer becomes a float, \<open>None\<close> and \<open>nan\<close>
  become \<open>nan\<close> (here \<open>None\<close>), and a string goes through Python's \<open>float\<close>, which raises
  \<open>ValueError\<close> on a string that is not a number. \<open>float\<close> on strings is a parameter,
  \<open>float_of_str\<close>, with \<open>None\<close> for the raise.
\<close>

definition to_float :: "(string \<Rightarrow> rat option option) \<Rightarrow> cell \<Rightarrow> rat option option" where
  "to_float float_of_str c =
     (case c of
        NoneV \<Rightarrow> Some None
      | NaN \<Rightarrow> Some None
      | IntV i \<Rightarrow> Some (Some (float_of_int i))
      | FloatV r \<Rightarrow> Some (Some r)
      | StrV s \<Rightarrow> float_of_str s)"

definition to_numpy_float ::
  "(string \<Rightarrow> rat option option) \<Rightarrow> (string \<times> cell list) list
     \<Rightarrow> (string \<times> rat option list) list option" where
  "to_numpy_float float_of_str sub =
     those (map (\<lambda>(c, xs). map_option (Pair c) (those (map (to_float float_of_str) xs))) sub)"

text \<open>
  Then the matrix of the pairwise correlations of the columns. The estimator of one pair
  is a parameter, \<open>None\<close> for \<open>nan\<close>. The matrix is held by columns, each a series over the
  same labels. The result is \<open>None\<close> when the conversion to floats raises.
\<close>

definition corr ::
  "(string \<Rightarrow> rat option option) \<Rightarrow> (rat option list \<Rightarrow> rat option list \<Rightarrow> rat option)
     \<Rightarrow> (string \<times> cell list) list \<Rightarrow> corr_matrix option" where
  "corr float_of_str pearson sub =
     map_option
       (\<lambda>mat. map (\<lambda>(c, xs). (c, map (\<lambda>(r, ys). (r, pearson ys xs)) mat)) mat)
       (to_numpy_float float_of_str sub)"

text \<open>\<open>Series.head(n)\<close>: the first \<open>n\<close> rows; for a negative \<open>n\<close>, all but the last \<open>-n\<close>.\<close>

definition head :: "int \<Rightarrow> 'a list \<Rightarrow> 'a list" where
  "head n xs = (if 0 \<le> n then take (nat n) xs else take (length xs - nat (- n)) xs)"

text \<open>
  \<open>corr[ref].drop(labels=[ref], errors='ignore').dropna().sort_values(ascending=False)\<close>
  and \<open>head(top_k)\<close>, on the column of the reference.
\<close>

definition top_correlations :: "series \<Rightarrow> string \<Rightarrow> int \<Rightarrow> (string \<times> rat) list" where
  "top_correlations col ref top_k =
     (let dropped = filter (\<lambda>(k, v). k \<noteq> ref) col;
          present = List.map_filter (\<lambda>(k, v). map_option (Pair k) v) dropped;
          serie = sort_key (\<lambda>(k, v). - v) present
      in head top_k serie)"

text \<open>
  The function returns the events and either the returned value or the exception raised.
  The conversion to floats raises before anything is drawn. When the label \<open>ref\<close> occurs
  more than once among the columns of the matrix, \<open>corr[ref]\<close> is a table and not a
  series, and \<open>sort_values\<close> without \<open>by\<close> raises \<open>TypeError\<close>, after the chart has been
  drawn, saved and shown.
\<close>

definition plot_correlation_matrix ::
  "(string \<Rightarrow> rat option option) \<Rightarrow> (rat option list \<Rightarrow> rat option list \<Rightarrow> rat option)
     \<Rightarrow> dataframe \<Rightarrow> string list option \<Rightarrow> string option \<Rightarrow> string \<Rightarrow> int \<Rightarrow> bool
     \<Rightarrow> event list \<times> (py_error + corr_matrix option)" where
  "plot_correlation_matrix float_of_str pearson df columnas save_path ref top_k print_top =
     (let columnas = filter (\<lambda>c. c \<in> set (columns df))
                       (case columnas of None \<Rightarrow> CONTAMINANTES | Some cs \<Rightarrow> cs)
      in if length columnas < 2 then ([Print msg_two_columns], Inr None)
         else
           (case corr float_of_str pearson (select_columns df columnas) of
              None \<Rightarrow> ([], Inl ValueError)
            | Some matrix \<Rightarrow>
                let drawn = [Figure, HeatmapCorr matrix] @ savefig save_path @ [Show]
                in if print_top \<and> ref \<in> set (map fst matrix) then
                     (if 1 < count_list (map fst matrix) ref then (drawn, Inl TypeError)
                      else
                        (case map_of matrix ref of
                           None \<Rightarrow> (drawn, Inr (Some matrix))
                         | Some col \<Rightarrow>
                             (drawn @ Print msg_top
                                # map (\<lambda>(k, v). PrintCorr k v) (top_correlations col ref top_k),
                              Inr (Some matrix))))
                   else (drawn, Inr (Some matrix))))"

subsection \<open>plot_heatmap_hourly\<close>

definition msg_no_column :: "string \<Rightarrow> string" where
  "msg_no_column columna =
     cross_mark @ '' La columna '' @ apostrophe @ columna @ apostrophe
       @ '' no existe en el DataFrame.''"

text \<open>
  After the check of the column, \<open>df_temp.index.dayofweek\<close> exists only on a
  \<open>DatetimeIndex\<close>: on any other index the attribute access raises.
\<close>

definition plot_heatmap_hourly ::
  "(cell list \<Rightarrow> int option list) \<Rightarrow> dataframe \<Rightarrow> string \<Rightarrow> string option
     \<Rightarrow> py_error + event list" where
  "plot_heatmap_hourly to_datetime df columna save_path =
     (let df' = ensure_datetime_index to_datetime df
      in if columna \<notin> set (columns df') then Inr [Print (msg_no_column columna)]
         else
           (case index df' of
              PlainIndex _ \<Rightarrow> Inl AttributeError
            | DatetimeIndex _ \<Rightarrow> Inr ([Figure, HeatmapHourly columna] @ savefig save_path @ [Show])))"

subsection \<open>plot_scatter_comparison\<close>

definition msg_scatter :: string where
  "msg_scatter = cross_mark @ '' Una o ambas columnas no existen en el DataFrame.''"

definition plot_scatter_comparison ::
  "dataframe \<Rightarrow> string \<Rightarrow> string \<Rightarrow> string option \<Rightarrow> event list" where
  "plot_scatter_comparison df col_x col_y save_path =
     (if col_x \<notin> set (columns df) \<or> col_y \<notin> set (columns df) then [Print msg_scatter]
      else [Figure, Scatter col_x col_y (''ica_category'' \<in> set (columns df))]
           @ savefig save_path
           @ [Show])"

section \<open>Examples\<close>

text \<open>
  A parser of dates for the examples, whose date columns hold integers and \<open>None\<close> only:
  \<open>pd.to_datetime\<close> reads an integer as the nanoseconds since the epoch, and \<open>None\<close> as
  \<open>NaT\<close>.
\<close>

definition epoch_nanoseconds :: "cell list \<Rightarrow> int option list" where
  "epoch_nanoseconds ds = map (\<lambda>c. case c of IntV t \<Rightarrow> Some t | _ \<Rightarrow> None) ds"

text \<open>
  \<open>float\<close> on the strings of the examples, which are names of categories and no numbers:
  it raises.
\<close>

definition not_a_number :: "string \<Rightarrow> rat option option" where
  "not_a_number s = None"

text \<open>
  An estimator for the examples: 1 on two equal columns, 0 otherwise. On the columns of
  the table below it is Pearson's coefficient: the columns \<open>pm2_5\<close> and \<open>pm10\<close> are equal,
  and any two others have covariance 0.
\<close>

definition same_or_zero :: "rat option list \<Rightarrow> rat option list \<Rightarrow> rat option" where
  "same_or_zero xs ys = (if xs = ys then Some 1 else Some 0)"

definition example_table :: dataframe where
  "example_table =
     \<lparr> index = DatetimeIndex [0, 3600000000000, 7200000000000, 10800000000000],
       cols =
        [(''pm2_5'', [FloatV 3, FloatV 1, FloatV 3, FloatV 1]),
         (''pm10'', [FloatV 3, FloatV 1, FloatV 3, FloatV 1]),
         (''co'', [FloatV 3, FloatV 3, FloatV 1, FloatV 1]),
         (''no'', [FloatV 3, FloatV 1, FloatV 1, FloatV 3]),
         (''ica_category'', [StrV ''Buena'', StrV ''Buena'', StrV ''Moderada'', NoneV])] \<rparr>"

section \<open>Columns of a table\<close>

lemma not_in_columns_iff: "map_of (cols df) c = None \<longleftrightarrow> c \<notin> set (columns df)"
  by (simp add: columns_def map_of_eq_None_iff)

section \<open>category_distribution: a missing column\<close>

text \<open>
  C2. For every table that lacks the categorical column, \<open>category_distribution\<close> prints
  the warning and returns \<open>None\<close>; the model has no other outcome there, so nothing is
  raised.
\<close>

theorem category_distribution_missing_column:
  assumes "cat_col \<notin> set (columns df_clean)"
  shows "category_distribution df_clean cat_col = ([msg_no_category], None)"
proof -
  from assms have "map_of (cols df_clean) cat_col = None"
    by (simp add: not_in_columns_iff)
  then show ?thesis
    by (simp add: category_distribution_def)
qed

theorem category_distribution_missing_column_witness:
  "category_distribution \<lparr> index = RangeIndex 1, cols = [(''pm2_5'', [FloatV 3])] \<rparr> ''ica_category''
     = ([msg_no_category], None)"
proof -
  have "''ica_category'' \<notin> set (columns \<lparr> index = RangeIndex 1, cols = [(''pm2_5'', [FloatV 3])] \<rparr>)"
    by (simp add: columns_def)
  then show ?thesis
    by (rule category_distribution_missing_column)
qed
section \<open>Counting the values of a column\<close>


lemma key_of_string: "key_of c = key_of (StrV s) \<longleftrightarrow> c = StrV s"
  by (cases c) (auto simp: key_of_def)

lemma set_uniques_subset: "set (uniques xs) \<subseteq> set xs"
  by (induction xs) auto

lemma keys_uniques: "key_of ` set (uniques xs) = key_of ` set xs"
proof (induction xs)
  case Nil
  show ?case by simp
next
  case (Cons x xs)
  have "key_of ` {y \<in> set (uniques xs). key_of y \<noteq> key_of x} = key_of ` set (uniques xs) - {key_of x}"
    by auto
  then show ?case
    using Cons.IH by simp
qed

lemma distinct_keys_uniques: "distinct (map key_of (uniques xs))"
proof (induction xs)
  case Nil
  show ?case by simp
next
  case (Cons x xs)
  have "distinct (map key_of (filter (\<lambda>y. key_of y \<noteq> key_of x) (uniques xs)))"
    using Cons.IH by (rule distinct_map_filter)
  then show ?case
    by auto
qed

lemma count_key_count_list: "count_key xs c = count_list (map key_of xs) (key_of c)"
  by (induction xs) (simp_all add: count_key_def)

lemma sum_count_uniques: "(\<Sum>c\<leftarrow>uniques xs. count_key xs c) = length xs"
proof -
  let ?ks = "map key_of xs"
  have "(\<Sum>c\<leftarrow>uniques xs. count_key xs c) = sum_list (map (count_list ?ks) (map key_of (uniques xs)))"
    by (simp add: count_key_count_list comp_def)
  also have "\<dots> = sum (count_list ?ks) (set (map key_of (uniques xs)))"
    by (rule sum_list_distinct_conv_sum_set [OF distinct_keys_uniques])
  also have "\<dots> = sum (count_list ?ks) (set ?ks)"
    by (simp add: keys_uniques)
  also have "\<dots> = length xs"
    by (simp add: sum_count_set)
  finally show ?thesis .
qed

lemma value_counts_keys_subset: "set (map fst (value_counts False xs)) \<subseteq> set xs"
  using set_uniques_subset [of xs] by (simp add: value_counts_def image_image)


lemma value_counts_keys_distinct: "distinct (map (\<lambda>r. key_of (fst r)) (value_counts False xs))"
proof -
  have "mset (map (\<lambda>r. key_of (fst r)) (value_counts False xs)) = mset (map key_of (uniques xs))"
    by (simp add: value_counts_def image_mset.compositionality comp_def)
  then show ?thesis
    using distinct_keys_uniques [of xs] by (metis mset_eq_imp_distinct_iff)
qed



lemma sum_list_int: "(\<Sum>x\<leftarrow>ys. int (f x)) = int (\<Sum>x\<leftarrow>ys. f x)"
  by (induction ys) simp_all

lemma value_counts_total: "sum_list (map snd (value_counts False xs)) = int (length xs)"
proof -
  have "mset (map snd (value_counts False xs)) = mset (map (\<lambda>c. int (count_key xs c)) (uniques xs))"
    by (simp add: value_counts_def image_mset.compositionality comp_def)
  then have "sum_list (map snd (value_counts False xs)) = (\<Sum>c\<leftarrow>uniques xs. int (count_key xs c))"
    by (metis sum_mset_sum_list)
  also have "\<dots> = int (\<Sum>c\<leftarrow>uniques xs. count_key xs c)"
    by (rule sum_list_int)
  finally show ?thesis by (simp add: sum_count_uniques)
qed

lemma count_key_positive: "c \<in> set xs \<Longrightarrow> 0 < count_key xs c"
  by (auto simp: count_key_def filter_empty_conv)

lemma value_counts_positive:
  assumes "(c, n) \<in> set (value_counts False xs)"
  shows "0 < n"
proof -
  from assms have "c \<in> set (uniques xs)" and "n = int (count_key xs c)"
    by (auto simp: value_counts_def)
  then show ?thesis
    using set_uniques_subset [of xs] by (auto simp: count_key_positive)
qed

lemma value_counts_empty: "value_counts dropna [] = []"
  by (simp add: value_counts_def)

lemma percentages_value_counts:
  "percentages (map snd (value_counts False xs))
     = map (\<lambda>r. FloatV (percent (snd r) (int (length xs)))) (value_counts False xs)"
proof (cases "xs = []")
  case True
  then show ?thesis
    by (simp add: value_counts_empty percentages_def)
next
  case False
  then have "sum_list (map snd (value_counts False xs)) \<noteq> 0"
    by (simp add: value_counts_total)
  then show ?thesis
    by (simp add: percentages_def Let_def value_counts_total comp_def)
qed

lemma category_distribution_present:
  assumes "map_of (cols df_clean) cat_col = Some xs"
  shows "category_distribution df_clean cat_col =
           ([], Some \<lparr> index = RangeIndex (length (value_counts False xs)),
                        cols = [(label_categoria, map fst (value_counts False xs)),
                                (''conteo'', map (\<lambda>r. IntV (snd r)) (value_counts False xs)),
                                (''porcentaje'', map (\<lambda>r. FloatV (percent (snd r) (int (length xs))))
                                                   (value_counts False xs))] \<rparr>)"
  using assms
  by (simp add: category_distribution_def Let_def percentages_value_counts comp_def)

section \<open>Rounding errors\<close>

lemma round_half_even_error: "\<bar>of_int (round_half_even y) - y\<bar> \<le> 1 / 2"
proof -
  have "of_int \<lfloor>y\<rfloor> \<le> y" "y < of_int \<lfloor>y\<rfloor> + 1"
    by linarith+
  then show ?thesis
    by (auto simp: round_half_even_def Let_def abs_le_iff)
qed

lemma binade_lower:
  assumes "x \<noteq> 0"
  shows "2 powi (binade x) \<le> \<bar>x\<bar>"
proof -
  obtain p q where pq: "quotient_of \<bar>x\<bar> = (p, q)"
    by (cases "quotient_of \<bar>x\<bar>")
  then have q: "0 < q" and x: "\<bar>x\<bar> = of_int p / of_int q"
    by (simp_all add: quotient_of_denom_pos quotient_of_div)
  have "0 < \<bar>x\<bar>"
    using assms by simp
  with x q have p: "0 < p"
    by (simp add: zero_less_divide_iff)
  define k where "k = bitlen p - bitlen q"
  have bin: "binade x = (if 2 powi k \<le> \<bar>x\<bar> then k else k - 1)"
    by (simp add: binade_def pq k_def Let_def)
  show ?thesis
  proof (cases "2 powi k \<le> \<bar>x\<bar>")
    case True
    with bin show ?thesis by simp
  next
    case False
    have bp: "1 \<le> bitlen p" "1 \<le> bitlen q"
      using p q by (simp_all add: bitlen_alt_def)
    have lo: "(2::rat) ^ nat (bitlen p - 1) \<le> of_int p"
      using bitlen_bounds [OF p] by (metis of_int_le_iff of_int_numeral of_int_power)
    have hi: "of_int q < (2::rat) ^ nat (bitlen q)"
      using bitlen_bounds [OF q] by (metis of_int_less_iff of_int_numeral of_int_power)
    have pa: "(2::rat) ^ nat (bitlen p - 1) = 2 powi (bitlen p - 1)"
      using bp by (simp add: power_int_def)
    have pb: "(2::rat) ^ nat (bitlen q) = 2 powi (bitlen q)"
      using bp by (simp add: power_int_def)
    have k1: "k - 1 = (bitlen p - 1) - bitlen q"
      by (simp add: k_def)
    have "(2::rat) powi (k - 1) = 2 powi (bitlen p - 1) / 2 powi (bitlen q)"
      unfolding k1 by (rule power_int_diff) simp
    also have "\<dots> = 2 ^ nat (bitlen p - 1) / 2 ^ nat (bitlen q)"
      by (simp only: pa pb)
    also have "\<dots> \<le> of_int p / of_int q"
      using lo hi p q by (intro frac_le) simp_all
    finally show ?thesis
      using False bin x by simp
  qed
qed

lemma rd_error: "\<bar>rd x - x\<bar> \<le> \<bar>x\<bar> / 2 ^ 53"
proof (cases "x = 0")
  case True
  then show ?thesis by (simp add: rd_def)
next
  case False
  define e where "e = binade x - 52"
  define y where "y = x / 2 powi e"
  have pos: "(0::rat) < 2 powi e"
    by simp
  have rdx: "rd x = of_int (round_half_even y) * 2 powi e"
    using False by (simp add: rd_def e_def y_def Let_def)
  have xy: "x = y * 2 powi e"
    using pos by (simp add: y_def)
  have "rd x - x = (of_int (round_half_even y) - y) * 2 powi e"
    by (simp add: rdx algebra_simps flip: xy)
  then have "\<bar>rd x - x\<bar> = \<bar>of_int (round_half_even y) - y\<bar> * 2 powi e"
    using pos by (simp add: abs_mult)
  also have "\<dots> \<le> (1 / 2) * 2 powi e"
    using round_half_even_error [of y] pos by (intro mult_right_mono) simp_all
  also have "\<dots> = 2 powi (binade x) / 2 ^ 53"
    by (simp add: e_def power_int_diff)
  also have "\<dots> \<le> \<bar>x\<bar> / 2 ^ 53"
    using binade_lower [OF False] by (simp add: divide_right_mono)
  finally show ?thesis .
qed

lemma rd_bounds:
  assumes "0 < x"
  shows "x * (1 - 1 / 2 ^ 53) \<le> rd x" and "rd x \<le> x * (1 + 1 / 2 ^ 53)"
proof -
  define u :: rat where "u = 1 / 2 ^ 53"
  have "\<bar>rd x - x\<bar> \<le> x * u"
    using rd_error [of x] assms by (simp add: u_def)
  then have "x * (1 - u) \<le> rd x" and "rd x \<le> x * (1 + u)"
    by (simp_all add: abs_le_iff algebra_simps)
  then show "x * (1 - 1 / 2 ^ 53) \<le> rd x" and "rd x \<le> x * (1 + 1 / 2 ^ 53)"
    by (simp_all only: u_def)
qed

lemma rd_pos: "0 < x \<Longrightarrow> 0 < rd x"
proof -
  assume x: "0 < x"
  have "0 < x * (1 - 1 / 2 ^ 53)"
    using x by simp
  with rd_bounds(1) [OF x] show ?thesis by simp
qed


lemma percent_bounds:
  assumes c: "0 < c" and t: "0 < n"
  shows "100 * (of_int c / of_int n) * (ulo ^ 3 / uhi) \<le> percent c n"
    and "percent c n \<le> 100 * (of_int c / of_int n) * (uhi ^ 3 / ulo)"
proof -
  define C :: rat where "C = of_int c"
  define T :: rat where "T = of_int n"
  define a where "a = rd C"
  define b where "b = rd T"
  define q where "q = rd (a / b)"
  have C: "0 < C" and T: "0 < T"
    using c t by (simp_all add: C_def T_def)
  have lo: "0 < ulo" and hi: "0 < uhi"
    by (simp_all add: ulo_def uhi_def)
  have a: "C * ulo \<le> a" "a \<le> C * uhi" "0 < a"
    using rd_bounds [OF C] rd_pos [OF C] by (simp_all add: a_def ulo_def uhi_def)
  have b: "T * ulo \<le> b" "b \<le> T * uhi" "0 < b"
    using rd_bounds [OF T] rd_pos [OF T] by (simp_all add: b_def ulo_def uhi_def)
  have ab: "0 < a / b"
    using a b by simp
  have q: "a / b * ulo \<le> q" "q \<le> a / b * uhi" "0 < q"
    using rd_bounds [OF ab] rd_pos [OF ab] by (simp_all add: q_def ulo_def uhi_def)
  have q100: "0 < q * 100"
    using q by simp
  have p: "percent c n = rd (q * 100)"
    by (simp add: percent_def fmul_def fdiv_def float_of_int_def q_def a_def b_def C_def T_def)
  have pb: "q * 100 * ulo \<le> percent c n" "percent c n \<le> q * 100 * uhi"
    using rd_bounds [OF q100] by (simp_all add: p ulo_def uhi_def)
  have ab_hi: "a / b \<le> (C * uhi) / (T * ulo)"
    using a b T lo C hi by (intro frac_le) simp_all
  have ab_lo: "(C * ulo) / (T * uhi) \<le> a / b"
    using a b T lo C hi by (intro frac_le) simp_all
  have "percent c n \<le> q * 100 * uhi"
    by (rule pb)
  also have "\<dots> \<le> (a / b * uhi) * 100 * uhi"
    using q hi by (intro mult_right_mono) simp_all
  also have "\<dots> \<le> ((C * uhi) / (T * ulo) * uhi) * 100 * uhi"
    using ab_hi hi by (intro mult_right_mono) simp_all
  also have "\<dots> = 100 * (C / T) * (uhi ^ 3 / ulo)"
    by (simp add: power3_eq_cube)
  finally show "percent c n \<le> 100 * (of_int c / of_int n) * (uhi ^ 3 / ulo)"
    by (simp add: C_def T_def)
  have "100 * (C / T) * (ulo ^ 3 / uhi) = ((C * ulo) / (T * uhi) * ulo) * 100 * ulo"
    by (simp add: power3_eq_cube)
  also have "\<dots> \<le> (a / b * ulo) * 100 * ulo"
    using ab_lo lo by (intro mult_right_mono) simp_all
  also have "\<dots> \<le> q * 100 * ulo"
    using q lo by (intro mult_right_mono) simp_all
  also have "\<dots> \<le> percent c n"
    by (rule pb)
  finally show "100 * (of_int c / of_int n) * (ulo ^ 3 / uhi) \<le> percent c n"
    by (simp add: C_def T_def)
qed

lemma percent_sum_bounds:
  assumes "\<forall>c \<in> set cs. 0 < c" and "0 < n"
  shows "100 * (of_int (sum_list cs) / of_int n) * (ulo ^ 3 / uhi) \<le> (\<Sum>c\<leftarrow>cs. percent c n)
       \<and> (\<Sum>c\<leftarrow>cs. percent c n) \<le> 100 * (of_int (sum_list cs) / of_int n) * (uhi ^ 3 / ulo)"
  using assms
proof (induction cs)
  case Nil
  show ?case by simp
next
  case (Cons c cs)
  have c: "0 < c"
    using Cons.prems by simp
  have lo: "100 * (of_int c / of_int n) * (ulo ^ 3 / uhi) \<le> percent c n"
    using c Cons.prems(2) by (rule percent_bounds)
  have hi: "percent c n \<le> 100 * (of_int c / of_int n) * (uhi ^ 3 / ulo)"
    using c Cons.prems(2) by (rule percent_bounds)
  have ih: "100 * (of_int (sum_list cs) / of_int n) * (ulo ^ 3 / uhi) \<le> (\<Sum>c\<leftarrow>cs. percent c n)"
    "(\<Sum>c\<leftarrow>cs. percent c n) \<le> 100 * (of_int (sum_list cs) / of_int n) * (uhi ^ 3 / ulo)"
    using Cons.IH Cons.prems by simp_all
  have split: "(of_int (sum_list (c # cs)) :: rat) / of_int n = of_int c / of_int n + of_int (sum_list cs) / of_int n"
    by (simp add: add_divide_distrib)
  show ?case
    unfolding split using lo hi ih by (simp add: algebra_simps)
qed

lemma tolerance_lo: "100 - 1 / 10 ^ 13 \<le> 100 * (ulo ^ 3 / uhi)"
  unfolding ulo_def uhi_def by (simp add: power_divide divide_simps)

lemma tolerance_hi: "100 * (uhi ^ 3 / ulo) \<le> 100 + 1 / 10 ^ 13"
  unfolding ulo_def uhi_def by (simp add: power_divide divide_simps)



lemma percent_self:
  assumes "0 < n"
  shows "percent n n = 100"
proof -
  have "0 < rd (of_int n)"
    using assms by (intro rd_pos) simp
  then have "fdiv (float_of_int n) (float_of_int n) = rd 1"
    by (simp add: fdiv_def float_of_int_def)
  moreover have "rd 1 = 1"
    by code_simp
  moreover have "rd 100 = 100"
    by code_simp
  ultimately show ?thesis
    by (simp add: percent_def fmul_def)
qed

section \<open>A column with one key\<close>

lemma uniques_one_key:
  assumes "\<forall>x \<in> set xs. key_of x = key_of (hd xs)" and "xs \<noteq> []"
  shows "uniques xs = [hd xs]"
proof -
  from assms(2) obtain a as where xs: "xs = a # as"
    by (cases xs) auto
  have "\<forall>y \<in> set (uniques as). key_of y = key_of a"
    using assms(1) set_uniques_subset [of as] by (auto simp: xs)
  then have "filter (\<lambda>y. key_of y \<noteq> key_of a) (uniques as) = []"
    by (simp add: filter_empty_conv)
  then show ?thesis
    by (simp add: xs)
qed

lemma count_key_one_key:
  assumes "\<forall>x \<in> set xs. key_of x = key_of c"
  shows "count_key xs c = length xs"
proof -
  from assms have "filter (\<lambda>x. key_of x = key_of c) xs = xs"
    by (simp add: filter_id_conv)
  then show ?thesis
    by (simp add: count_key_def)
qed

lemma value_counts_one_key:
  assumes "\<forall>x \<in> set xs. key_of x = key_of (hd xs)" and "xs \<noteq> []"
  shows "value_counts False xs = [(hd xs, int (length xs))]"
  by (simp add: value_counts_def uniques_one_key [OF assms] count_key_one_key [OF assms(1)])

section \<open>category_distribution: the summary\<close>

text \<open>
  The rows of the summary on two columns: one that holds \<open>None\<close> and \<open>nan\<close>, which are two
  categories, and one that holds the integer 1 and the float 1.0, which are one.
\<close>

lemma category_distribution_examples:
  "category_distribution
     \<lparr> index = RangeIndex 5,
       cols = [(''ica_category'', [NoneV, StrV ''Buena'', NaN, StrV ''Buena'', NoneV])] \<rparr>
     ''ica_category''
   = ([], Some \<lparr> index = RangeIndex 3,
                  cols = [(label_categoria, [NoneV, StrV ''Buena'', NaN]),
                          (''conteo'', [IntV 2, IntV 2, IntV 1]),
                          (''porcentaje'', [FloatV 40, FloatV 40, FloatV 20])] \<rparr>)
   \<and> category_distribution
     \<lparr> index = RangeIndex 4,
       cols = [(''ica_category'', [IntV 1, FloatV 1, StrV ''a'', FloatV 1])] \<rparr>
     ''ica_category''
   = ([], Some \<lparr> index = RangeIndex 2,
                  cols = [(label_categoria, [IntV 1, StrV ''a'']),
                          (''conteo'', [IntV 3, IntV 1]),
                          (''porcentaje'', [FloatV 75, FloatV 25])] \<rparr>)"
proof (intro conjI)
  let ?xs = "[NoneV, StrV ''Buena'', NaN, StrV ''Buena'', NoneV]"
  let ?ys = "[IntV 1, FloatV 1, StrV ''a'', FloatV 1]"
  have p: "percent 2 5 = 40" "percent 1 5 = 20" "percent 3 4 = 75" "percent 1 4 = 25"
    by code_simp+
  have xs: "value_counts False ?xs = [(NoneV, 2), (StrV ''Buena'', 2), (NaN, 1)]"
    by (simp add: value_counts_def count_key_def key_of_def)
  have ys: "value_counts False ?ys = [(IntV 1, 3), (StrV ''a'', 1)]"
    by (simp add: value_counts_def count_key_def key_of_def)
  have colx: "map_of (cols \<lparr> index = RangeIndex 5, cols = [(''ica_category'', ?xs)] \<rparr>)
                ''ica_category'' = Some ?xs"
    by simp
  have coly: "map_of (cols \<lparr> index = RangeIndex 4, cols = [(''ica_category'', ?ys)] \<rparr>)
                ''ica_category'' = Some ?ys"
    by simp
  show "category_distribution \<lparr> index = RangeIndex 5, cols = [(''ica_category'', ?xs)] \<rparr>
          ''ica_category''
        = ([], Some \<lparr> index = RangeIndex 3,
                       cols = [(label_categoria, [NoneV, StrV ''Buena'', NaN]),
                               (''conteo'', [IntV 2, IntV 2, IntV 1]),
                               (''porcentaje'', [FloatV 40, FloatV 40, FloatV 20])] \<rparr>)"
    unfolding category_distribution_present [OF colx] xs by (simp add: p numeral_3_eq_3)
  show "category_distribution \<lparr> index = RangeIndex 4, cols = [(''ica_category'', ?ys)] \<rparr>
          ''ica_category''
        = ([], Some \<lparr> index = RangeIndex 2,
                       cols = [(label_categoria, [IntV 1, StrV ''a'']),
                               (''conteo'', [IntV 3, IntV 1]),
                               (''porcentaje'', [FloatV 75, FloatV 25])] \<rparr>)"
    unfolding category_distribution_present [OF coly] ys by (simp add: p numeral_2_eq_2)
qed



section \<open>category_distribution: the percentages\<close>

text \<open>
  C3, as amended. For every non-empty table that has the categorical column, the
  \<open>porcentaje\<close> values of the summary are floats whose sum, taken exactly, lies within
  \<open>1 / 10 ^ 13\<close> of 100; and when all the rows share one category (all the cells are the
  same key), the summary is one row, with the first cell as its category, the number of
  rows as its count and exactly 100.0 as its percentage.
\<close>

theorem category_distribution_percentages_total:
  assumes "map_of (cols df_clean) cat_col = Some xs" and "xs \<noteq> []"
  shows "\<exists>cats conteo pcts.
           category_distribution df_clean cat_col =
             ([], Some \<lparr> index = RangeIndex (length cats),
                          cols = [(label_categoria, cats),
                                  (''conteo'', map IntV conteo),
                                  (''porcentaje'', map FloatV pcts)] \<rparr>)
         \<and> \<bar>sum_list pcts - 100\<bar> \<le> 1 / 10 ^ 13
         \<and> ((\<forall>x \<in> set xs. key_of x = key_of (hd xs))
              \<longrightarrow> cats = [hd xs] \<and> conteo = [int (length xs)] \<and> pcts = [100])"
proof -
  define counts where "counts = value_counts False xs"
  define n where "n = int (length xs)"
  define pcts where "pcts = map (\<lambda>r. percent (snd r) n) counts"
  have n: "0 < n"
    using assms(2) by (simp add: n_def)
  have result: "category_distribution df_clean cat_col =
             ([], Some \<lparr> index = RangeIndex (length (map fst counts)),
                          cols = [(label_categoria, map fst counts),
                                  (''conteo'', map IntV (map snd counts)),
                                  (''porcentaje'', map FloatV pcts)] \<rparr>)"
    using category_distribution_present [OF assms(1)]
    by (simp add: counts_def n_def pcts_def comp_def)
  have positive: "\<forall>c \<in> set (map snd counts). 0 < c"
    using value_counts_positive by (auto simp: counts_def)
  have total: "sum_list (map snd counts) = n"
    by (simp add: counts_def n_def value_counts_total)
  have pcts_sum: "sum_list pcts = (\<Sum>c\<leftarrow>map snd counts. percent c n)"
    by (simp add: pcts_def comp_def)
  have "100 * (of_int (sum_list (map snd counts)) / of_int n) * (ulo ^ 3 / uhi) \<le> sum_list pcts"
    and "sum_list pcts \<le> 100 * (of_int (sum_list (map snd counts)) / of_int n) * (uhi ^ 3 / ulo)"
    unfolding pcts_sum using percent_sum_bounds [OF positive n] by blast+
  then have "100 * (ulo ^ 3 / uhi) \<le> sum_list pcts" and "sum_list pcts \<le> 100 * (uhi ^ 3 / ulo)"
    using n by (simp_all add: total)
  then have "100 - 1 / 10 ^ 13 \<le> sum_list pcts" and "sum_list pcts \<le> 100 + 1 / 10 ^ 13"
    using tolerance_lo tolerance_hi by (blast intro: order_trans)+
  then have close: "\<bar>sum_list pcts - 100\<bar> \<le> 1 / 10 ^ 13"
    unfolding abs_le_iff by linarith
  have single: "map fst counts = [hd xs] \<and> map snd counts = [int (length xs)] \<and> pcts = [100]"
    if "\<forall>x \<in> set xs. key_of x = key_of (hd xs)"
    using value_counts_one_key [OF that assms(2)] percent_self [OF n]
    by (simp add: counts_def pcts_def n_def)
  show ?thesis
    by (rule exI [of _ "map fst counts"], rule exI [of _ "map snd counts"], rule exI [of _ pcts])
      (use result close single in blast)
qed

theorem category_distribution_percentages_total_witness:
  "category_distribution
     \<lparr> index = RangeIndex 2, cols = [(''ica_category'', [StrV ''Buena'', StrV ''Buena''])] \<rparr>
     ''ica_category''
   = ([], Some \<lparr> index = RangeIndex 1,
                  cols = [(label_categoria, [StrV ''Buena'']),
                          (''conteo'', [IntV 2]),
                          (''porcentaje'', [FloatV 100])] \<rparr>)"
proof -
  let ?df = "\<lparr> index = RangeIndex 2, cols = [(''ica_category'', [StrV ''Buena'', StrV ''Buena''])] \<rparr>"
  let ?xs = "[StrV ''Buena'', StrV ''Buena'']"
  have col: "map_of (cols ?df) ''ica_category'' = Some ?xs"
    by simp
  have ne: "?xs \<noteq> []"
    by simp
  have one: "\<forall>x \<in> set ?xs. key_of x = key_of (hd ?xs)"
    by simp
  from category_distribution_percentages_total [OF col ne] one show ?thesis
    by fastforce
qed

text \<open>
  The sum is not always 100: a table of three rows with three different categories has
  three times the float nearest to \<open>100 / 3\<close> (33.33333333333333), whose sum is not 100,
  neither exactly nor when added as floats (99.99999999999999).
\<close>

theorem category_distribution_percentages_not_exact:
  "category_distribution
     \<lparr> index = RangeIndex 3,
       cols = [(''ica_category'', [StrV ''Buena'', StrV ''Moderada'', StrV ''Peligrosa''])] \<rparr>
     ''ica_category''
   = ([], Some \<lparr> index = RangeIndex 3,
                  cols = [(label_categoria, [StrV ''Buena'', StrV ''Moderada'', StrV ''Peligrosa'']),
                          (''conteo'', [IntV 1, IntV 1, IntV 1]),
                          (''porcentaje'',
                             [FloatV (2345624805922133 / 70368744177664),
                              FloatV (2345624805922133 / 70368744177664),
                              FloatV (2345624805922133 / 70368744177664)])] \<rparr>)
   \<and> sum_list [2345624805922133 / 70368744177664, 2345624805922133 / 70368744177664,
                2345624805922133 / 70368744177664 :: rat] \<noteq> 100
   \<and> fadd (fadd (2345624805922133 / 70368744177664) (2345624805922133 / 70368744177664))
        (2345624805922133 / 70368744177664) \<noteq> 100"
proof (intro conjI)
  let ?xs = "[StrV ''Buena'', StrV ''Moderada'', StrV ''Peligrosa'']"
  let ?df = "\<lparr> index = RangeIndex 3, cols = [(''ica_category'', ?xs)] \<rparr>"
  have col: "map_of (cols ?df) ''ica_category'' = Some ?xs"
    by simp
  have counts: "value_counts False ?xs = [(StrV ''Buena'', 1), (StrV ''Moderada'', 1), (StrV ''Peligrosa'', 1)]"
    by (simp add: value_counts_def count_key_def key_of_def)
  have p: "percent 1 3 = 2345624805922133 / 70368744177664"
    by code_simp
  show "category_distribution ?df ''ica_category''
   = ([], Some \<lparr> index = RangeIndex 3,
                  cols = [(label_categoria, ?xs),
                          (''conteo'', [IntV 1, IntV 1, IntV 1]),
                          (''porcentaje'',
                             [FloatV (2345624805922133 / 70368744177664),
                              FloatV (2345624805922133 / 70368744177664),
                              FloatV (2345624805922133 / 70368744177664)])] \<rparr>)"
    unfolding category_distribution_present [OF col] counts by (simp add: p numeral_3_eq_3)
  show "sum_list [2345624805922133 / 70368744177664, 2345624805922133 / 70368744177664,
                2345624805922133 / 70368744177664 :: rat] \<noteq> 100"
    by simp
  show "fadd (fadd (2345624805922133 / 70368744177664) (2345624805922133 / 70368744177664))
        (2345624805922133 / 70368744177664) \<noteq> 100"
    by code_simp
qed

section \<open>category_distribution: a table without rows\<close>

text \<open>
  C10. For a table without rows that has the categorical column, \<open>category_distribution\<close>
  prints nothing and returns a summary (not \<open>None\<close>) whose three columns are empty: no
  percentage exists whose sum could be 100.
\<close>

theorem category_distribution_empty_table:
  assumes "map_of (cols df_clean) cat_col = Some []"
  shows "category_distribution df_clean cat_col =
           ([], Some \<lparr> index = RangeIndex 0,
                        cols = [(label_categoria, []), (''conteo'', []), (''porcentaje'', [])] \<rparr>)"
  using category_distribution_present [OF assms] by (simp add: value_counts_empty)

theorem category_distribution_empty_table_witness:
  "category_distribution \<lparr> index = RangeIndex 0, cols = [(''pm2_5'', []), (''ica_category'', [])] \<rparr>
     ''ica_category''
   = ([], Some \<lparr> index = RangeIndex 0,
                  cols = [(label_categoria, []), (''conteo'', []), (''porcentaje'', [])] \<rparr>)"
proof -
  have "map_of (cols \<lparr> index = RangeIndex 0, cols = [(''pm2_5'', []), (''ica_category'', [])] \<rparr>)
          ''ica_category'' = Some []"
    by simp
  then show ?thesis
    by (rule category_distribution_empty_table)
qed

section \<open>show_ica_health_table\<close>

text \<open>
  C4. \<open>show_ica_health_table\<close> takes no input and is a constant: a table of three columns
  of exactly 5 rows each, over the row index \<open>0, \<dots>, 4\<close>, whose column of categories is,
  in order, Buena, Moderada, Da\<open>n_tilde\<close>ina para grupos sensibles, Muy da\<open>n_tilde\<close>ina,
  Peligrosa (\<open>n_tilde\<close> is the letter n with a tilde). The model has no failing outcome.
\<close>

theorem show_ica_health_table_fixed:
  "index show_ica_health_table = RangeIndex 5
   \<and> columns show_ica_health_table
       = [''Categor'' @ i_acute @ ''a ICA'',
          ''Rango PM2.5 ('' @ micro_sign @ ''g/m'' @ superscript_3 @ '')'',
          ''Impacto en la salud'']
   \<and> map (\<lambda>(c, xs). length xs) (cols show_ica_health_table) = [5, 5, 5]
   \<and> map_of (cols show_ica_health_table) (''Categor'' @ i_acute @ ''a ICA'')
       = Some [StrV ''Buena'',
               StrV ''Moderada'',
               StrV (''Da'' @ n_tilde @ ''ina para grupos sensibles''),
               StrV (''Muy da'' @ n_tilde @ ''ina''),
               StrV ''Peligrosa'']"
  by (simp add: show_ica_health_table_def columns_def)

section \<open>ensure_datetime_index\<close>

lemma ensure_datetime_index_on_datetime:
  "index df = DatetimeIndex ts \<Longrightarrow> ensure_datetime_index to_datetime df = df"
  by (simp add: ensure_datetime_index_def)

lemma ensure_datetime_index_cases:
  "ensure_datetime_index to_datetime df = df
   \<or> (\<exists>ts. index (ensure_datetime_index to_datetime df) = DatetimeIndex ts)"
  by (simp add: ensure_datetime_index_def Let_def split: pd_index.splits option.splits)

lemma columns_ensure_datetime_index:
  "set (columns (ensure_datetime_index to_datetime df)) \<subseteq> set (columns df)"
  by (force simp: ensure_datetime_index_def columns_def Let_def split: pd_index.splits option.splits)

text \<open>
  C5. \<open>ensure_datetime_index\<close> is idempotent: for every table, and whatever the parser of
  dates does, applying it twice gives the table that applying it once gives; and a table
  whose index is already a \<open>DatetimeIndex\<close> is returned unchanged.
\<close>

theorem ensure_datetime_index_idempotent:
  "ensure_datetime_index to_datetime (ensure_datetime_index to_datetime df)
     = ensure_datetime_index to_datetime df
   \<and> (\<forall>ts. index df = DatetimeIndex ts \<longrightarrow> ensure_datetime_index to_datetime df = df)"
proof (intro conjI allI impI)
  show "ensure_datetime_index to_datetime (ensure_datetime_index to_datetime df)
          = ensure_datetime_index to_datetime df"
    using ensure_datetime_index_cases [of to_datetime df]
  proof
    assume "ensure_datetime_index to_datetime df = df"
    then show ?thesis by simp
  next
    assume "\<exists>ts. index (ensure_datetime_index to_datetime df) = DatetimeIndex ts"
    then show ?thesis
      by (auto intro: ensure_datetime_index_on_datetime)
  qed
next
  fix ts
  assume "index df = DatetimeIndex ts"
  then show "ensure_datetime_index to_datetime df = df"
    by (rule ensure_datetime_index_on_datetime)
qed

theorem ensure_datetime_index_idempotent_witness:
  "ensure_datetime_index epoch_nanoseconds
     \<lparr> index = RangeIndex 3,
       cols = [(''date'', [IntV 10, NoneV, IntV 30]),
               (''pm2_5'', [FloatV 1, FloatV 2, FloatV 3])] \<rparr>
   = \<lparr> index = DatetimeIndex [10, 30], cols = [(''pm2_5'', [FloatV 1, FloatV 3])] \<rparr>
   \<and> ensure_datetime_index epoch_nanoseconds
       (ensure_datetime_index epoch_nanoseconds
          \<lparr> index = RangeIndex 3,
            cols = [(''date'', [IntV 10, NoneV, IntV 30]),
                    (''pm2_5'', [FloatV 1, FloatV 2, FloatV 3])] \<rparr>)
     = \<lparr> index = DatetimeIndex [10, 30], cols = [(''pm2_5'', [FloatV 1, FloatV 3])] \<rparr>
   \<and> ensure_datetime_index epoch_nanoseconds
       \<lparr> index = DatetimeIndex [10, 30], cols = [(''pm2_5'', [FloatV 1, FloatV 3])] \<rparr>
     = \<lparr> index = DatetimeIndex [10, 30], cols = [(''pm2_5'', [FloatV 1, FloatV 3])] \<rparr>"
proof -
  let ?df = "\<lparr> index = RangeIndex 3,
       cols = [(''date'', [IntV 10, NoneV, IntV 30]),
               (''pm2_5'', [FloatV 1, FloatV 2, FloatV 3])] \<rparr>"
  let ?out = "\<lparr> index = DatetimeIndex [10, 30], cols = [(''pm2_5'', [FloatV 1, FloatV 3])] \<rparr>"
  have once: "ensure_datetime_index epoch_nanoseconds ?df = ?out"
    by (simp add: ensure_datetime_index_def RangeIndex_def epoch_nanoseconds_def keep_rows_def
        List.map_filter_def)
  have twice: "ensure_datetime_index epoch_nanoseconds (ensure_datetime_index epoch_nanoseconds ?df)
          = ensure_datetime_index epoch_nanoseconds ?df"
    using ensure_datetime_index_idempotent [of epoch_nanoseconds ?df] by (rule conjunct1)
  have "index ?out = DatetimeIndex [10, 30]"
    by simp
  with ensure_datetime_index_idempotent [of epoch_nanoseconds ?out]
  have same: "ensure_datetime_index epoch_nanoseconds ?out = ?out"
    by blast
  from once twice same show ?thesis
    by simp
qed

section \<open>The renderers on a missing column\<close>

lemma columns_example_table:
  "columns example_table = [''pm2_5'', ''pm10'', ''co'', ''no'', ''ica_category'']"
  by (simp add: example_table_def columns_def)

lemma savefig_events: "set (savefig save_path) \<subseteq> (case save_path of None \<Rightarrow> {} | Some p \<Rightarrow> {Savefig p})"
  by (auto simp: savefig_def split: option.splits)

lemma plot_time_series_none_present:
  assumes "\<forall>c \<in> set columnas. c \<notin> set (columns df)"
  shows "plot_time_series to_datetime df columnas save_path = [Figure] @ savefig save_path @ [Show]"
proof -
  have "\<forall>c \<in> set columnas. c \<notin> set (columns (ensure_datetime_index to_datetime df))"
    using assms columns_ensure_datetime_index by blast
  then have "filter (\<lambda>col. col \<in> set (columns (ensure_datetime_index to_datetime df))) columnas = []"
    by (simp add: filter_empty_conv)
  then show ?thesis
    by (simp add: plot_time_series_def Let_def)
qed

text \<open>
  C1, as amended. For every table and every column name \<open>c\<close> that is not a column of the
  table: \<open>plot_scatter_comparison\<close> with \<open>c\<close> as either of its two columns, and
  \<open>plot_heatmap_hourly\<close> with \<open>c\<close> as its column, print their warning and do nothing else:
  no figure, no file saved, nothing shown. \<open>plot_time_series\<close> prints no warning: it draws
  no line for \<open>c\<close>, and when none of the requested columns is a column of the table it
  still opens a figure, saves it to the save path when one is given, and shows it.
\<close>

theorem missing_column_renderers:
  assumes "c \<notin> set (columns df)"
  shows "plot_scatter_comparison df c col_y save_path = [Print msg_scatter]
       \<and> plot_scatter_comparison df col_x c save_path = [Print msg_scatter]
       \<and> plot_heatmap_hourly to_datetime df c save_path = Inr [Print (msg_no_column c)]
       \<and> PlotLine c \<notin> set (plot_time_series to_datetime df columnas save_path)
       \<and> (\<forall>m. Print m \<notin> set (plot_time_series to_datetime df columnas save_path))
       \<and> plot_time_series to_datetime df [c] save_path = [Figure] @ savefig save_path @ [Show]
       \<and> ((\<forall>c' \<in> set columnas. c' \<notin> set (columns df))
            \<longrightarrow> plot_time_series to_datetime df columnas save_path
                  = [Figure] @ savefig save_path @ [Show])"
proof -
  from assms have c': "c \<notin> set (columns (ensure_datetime_index to_datetime df))"
    using columns_ensure_datetime_index by blast
  have scatter_x: "plot_scatter_comparison df c col_y save_path = [Print msg_scatter]"
    using assms by (simp add: plot_scatter_comparison_def)
  have scatter_y: "plot_scatter_comparison df col_x c save_path = [Print msg_scatter]"
    using assms by (simp add: plot_scatter_comparison_def)
  have heatmap: "plot_heatmap_hourly to_datetime df c save_path = Inr [Print (msg_no_column c)]"
    using c' by (simp add: plot_heatmap_hourly_def Let_def)
  have no_line: "PlotLine c \<notin> set (plot_time_series to_datetime df columnas save_path)"
    using c' savefig_events [of save_path]
    by (auto simp: plot_time_series_def Let_def split: option.splits)
  have no_print: "\<forall>m. Print m \<notin> set (plot_time_series to_datetime df columnas save_path)"
    using savefig_events [of save_path]
    by (auto simp: plot_time_series_def Let_def split: option.splits)
  have one: "plot_time_series to_datetime df [c] save_path = [Figure] @ savefig save_path @ [Show]"
    using assms by (intro plot_time_series_none_present) simp
  have none: "(\<forall>c' \<in> set columnas. c' \<notin> set (columns df))
            \<longrightarrow> plot_time_series to_datetime df columnas save_path
                  = [Figure] @ savefig save_path @ [Show]"
    using plot_time_series_none_present by blast
  from scatter_x scatter_y heatmap no_line no_print one none show ?thesis
    by (intro conjI)
qed

theorem missing_column_renderers_witness:
  "plot_scatter_comparison example_table ''ozono'' ''pm10'' (Some ''dispersion.png'')
     = [Print msg_scatter]
   \<and> plot_scatter_comparison example_table ''pm2_5'' ''ozono'' (Some ''dispersion.png'')
     = [Print msg_scatter]
   \<and> plot_heatmap_hourly epoch_nanoseconds example_table ''ozono'' (Some ''dispersion.png'')
     = Inr [Print (msg_no_column ''ozono'')]
   \<and> PlotLine ''ozono''
       \<notin> set (plot_time_series epoch_nanoseconds example_table [''pm2_5'', ''ozono'']
                 (Some ''dispersion.png''))
   \<and> plot_time_series epoch_nanoseconds example_table [''ozono''] (Some ''dispersion.png'')
     = [Figure, Savefig ''dispersion.png'', Show]"
proof -
  have missing: "''ozono'' \<notin> set (columns example_table)"
    by (simp add: columns_example_table)
  have saved: "savefig (Some ''dispersion.png'') = [Savefig ''dispersion.png'']"
    by (simp add: savefig_def)
  from missing_column_renderers
      [where col_y = "''pm10''" and col_x = "''pm2_5''" and save_path = "Some ''dispersion.png''"
         and to_datetime = epoch_nanoseconds and columnas = "[''pm2_5'', ''ozono'']", OF missing]
  show ?thesis
    unfolding saved by simp
qed

text \<open>
  The time-series renderer does not warn and does save: asked for the one column
  \<open>ozono\<close>, which the table lacks, with a save path, it prints nothing, opens a figure,
  saves the file and shows the chart.
\<close>

theorem plot_time_series_missing_column_saves:
  "''ozono'' \<notin> set (columns example_table)
   \<and> plot_time_series epoch_nanoseconds example_table [''ozono''] (Some ''serie.png'')
     = [Figure, Savefig ''serie.png'', Show]"
proof (intro conjI)
  show missing: "''ozono'' \<notin> set (columns example_table)"
    by (simp add: columns_example_table)
  have "\<forall>c \<in> set [''ozono'']. c \<notin> set (columns example_table)"
    using missing by simp
  then have "plot_time_series epoch_nanoseconds example_table [''ozono''] (Some ''serie.png'')
               = [Figure] @ savefig (Some ''serie.png'') @ [Show]"
    by (rule plot_time_series_none_present)
  then show "plot_time_series epoch_nanoseconds example_table [''ozono''] (Some ''serie.png'')
               = [Figure, Savefig ''serie.png'', Show]"
    by (simp add: savefig_def)
qed

section \<open>plot_ica_distribution\<close>

lemma value_counts_dropna:
  "value_counts True xs = value_counts False (filter (\<lambda>c. \<not> isna c) xs)"
  by (simp add: value_counts_def)

lemma string_in_uniques: "StrV s \<in> set (uniques ys) \<longleftrightarrow> StrV s \<in> set ys"
proof
  assume "StrV s \<in> set (uniques ys)"
  then show "StrV s \<in> set ys"
    using set_uniques_subset by blast
next
  assume "StrV s \<in> set ys"
  then have "key_of (StrV s) \<in> key_of ` set (uniques ys)"
    by (simp add: keys_uniques)
  then obtain u where "u \<in> set (uniques ys)" and "key_of u = key_of (StrV s)"
    by force
  then show "StrV s \<in> set (uniques ys)"
    by (simp add: key_of_string)
qed

lemma count_key_string: "count_key ys (StrV s) = count_list ys (StrV s)"
  by (induction ys) (auto simp: count_key_def key_of_string)

lemma distinct_map_inner: "distinct (map (\<lambda>x. f (g x)) xs) \<Longrightarrow> distinct (map g xs)"
  by (induction xs) auto

lemma value_counts_fst_distinct: "distinct (map fst (value_counts False ys))"
  using value_counts_keys_distinct [of ys] by (rule distinct_map_inner)

lemma map_of_value_counts_string:
  "map_of (value_counts False ys) (StrV s)
     = (if StrV s \<in> set ys then Some (int (count_list ys (StrV s))) else None)"
proof (cases "StrV s \<in> set ys")
  case True
  then have "(StrV s, int (count_list ys (StrV s))) \<in> set (value_counts False ys)"
    by (simp add: value_counts_def string_in_uniques count_key_string image_iff)
  then have "map_of (value_counts False ys) (StrV s) = Some (int (count_list ys (StrV s)))"
    using value_counts_fst_distinct by (rule map_of_is_SomeI [rotated])
  with True show ?thesis by simp
next
  case False
  then have "StrV s \<notin> fst ` set (value_counts False ys)"
    using value_counts_keys_subset [of ys] by auto
  then have "map_of (value_counts False ys) (StrV s) = None"
    by (simp add: map_of_eq_None_iff)
  with False show ?thesis by simp
qed

lemma count_list_filter: "P c \<Longrightarrow> count_list (filter P xs) c = count_list xs c"
  by (induction xs) simp_all

lemma reindex_value_counts:
  "reindex labels (value_counts True xs) 0 = map (\<lambda>l. int (count_list xs (StrV l))) labels"
proof -
  have "(case map_of (value_counts True xs) (StrV l) of None \<Rightarrow> 0 | Some n \<Rightarrow> n)
          = int (count_list xs (StrV l))" for l
    by (simp add: value_counts_dropna map_of_value_counts_string count_list_filter
        count_list_0_iff isna_def)
  then show ?thesis
    by (simp add: reindex_def)
qed

lemma map_enumerate:
  "map (\<lambda>(i, v). g i v) (enumerate 0 xs) = map (\<lambda>i. g i (xs ! i)) [0..<length xs]"
  by (rule nth_equalityI) (simp_all add: nth_enumerate_eq)

lemma length_orden_ica: "length orden_ica = 6"
  by (simp add: orden_ica_def)

lemma ratio_lo: "1 - 1 / 10 ^ 15 \<le> ulo ^ 2 / uhi"
  unfolding ulo_def uhi_def by (simp add: power_divide divide_simps)

lemma ratio_hi: "uhi ^ 2 / ulo \<le> 1 + 1 / 10 ^ 15"
  unfolding ulo_def uhi_def by (simp add: power_divide divide_simps)

lemma ratio_bounds:
  assumes c: "0 < c" and t: "0 < n"
  shows "of_int c / of_int n * (ulo ^ 2 / uhi) \<le> fdiv (float_of_int c) (float_of_int n)"
    and "fdiv (float_of_int c) (float_of_int n) \<le> of_int c / of_int n * (uhi ^ 2 / ulo)"
proof -
  define C :: rat where "C = of_int c"
  define T :: rat where "T = of_int n"
  define a where "a = rd C"
  define b where "b = rd T"
  have C: "0 < C" and T: "0 < T"
    using c t by (simp_all add: C_def T_def)
  have lo: "0 < ulo" and hi: "0 < uhi"
    by (simp_all add: ulo_def uhi_def)
  have a: "C * ulo \<le> a" "a \<le> C * uhi" "0 < a"
    using rd_bounds [OF C] rd_pos [OF C] by (simp_all add: a_def ulo_def uhi_def)
  have b: "T * ulo \<le> b" "b \<le> T * uhi" "0 < b"
    using rd_bounds [OF T] rd_pos [OF T] by (simp_all add: b_def ulo_def uhi_def)
  have ab: "0 < a / b"
    using a b by simp
  have q: "fdiv (float_of_int c) (float_of_int n) = rd (a / b)"
    by (simp add: fdiv_def float_of_int_def a_def b_def C_def T_def)
  have qb: "a / b * ulo \<le> rd (a / b)" "rd (a / b) \<le> a / b * uhi"
    using rd_bounds [OF ab] by (simp_all add: ulo_def uhi_def)
  have ab_hi: "a / b \<le> (C * uhi) / (T * ulo)"
    using a b T lo C hi by (intro frac_le) simp_all
  have ab_lo: "(C * ulo) / (T * uhi) \<le> a / b"
    using a b T lo C hi by (intro frac_le) simp_all
  have "rd (a / b) \<le> a / b * uhi"
    by (rule qb)
  also have "\<dots> \<le> (C * uhi) / (T * ulo) * uhi"
    using ab_hi hi by (intro mult_right_mono) simp_all
  also have "\<dots> = C / T * (uhi ^ 2 / ulo)"
    by (simp add: power2_eq_square)
  finally show "fdiv (float_of_int c) (float_of_int n) \<le> of_int c / of_int n * (uhi ^ 2 / ulo)"
    by (simp add: q C_def T_def)
  have "C / T * (ulo ^ 2 / uhi) = (C * ulo) / (T * uhi) * ulo"
    by (simp add: power2_eq_square)
  also have "\<dots> \<le> a / b * ulo"
    using ab_lo lo by (intro mult_right_mono) simp_all
  also have "\<dots> \<le> rd (a / b)"
    by (rule qb)
  finally show "of_int c / of_int n * (ulo ^ 2 / uhi) \<le> fdiv (float_of_int c) (float_of_int n)"
    by (simp add: q C_def T_def)
qed

lemma ratio_error:
  assumes c: "0 \<le> c" and n: "0 < n"
  shows "\<bar>fdiv (float_of_int c) (float_of_int n) - of_int c / of_int n\<bar>
           \<le> of_int c / of_int n / 10 ^ 15"
proof (cases "c = 0")
  case True
  then show ?thesis
    by (simp add: fdiv_def float_of_int_def rd_def)
next
  case False
  with c have c: "0 < c"
    by simp
  define E :: rat where "E = of_int c / of_int n"
  define \<epsilon> :: rat where "\<epsilon> = 1 / 10 ^ 15"
  define q where "q = fdiv (float_of_int c) (float_of_int n)"
  have E: "0 < E"
    using c n by (simp add: E_def)
  have "E * (1 - \<epsilon>) \<le> E * (ulo ^ 2 / uhi)"
    using E ratio_lo by (intro mult_left_mono) (simp_all add: \<epsilon>_def)
  also have "\<dots> \<le> q"
    using ratio_bounds(1) [OF c n] by (simp add: E_def q_def)
  finally have lo: "E * (1 - \<epsilon>) \<le> q" .
  have "q \<le> E * (uhi ^ 2 / ulo)"
    using ratio_bounds(2) [OF c n] by (simp add: E_def q_def)
  also have "\<dots> \<le> E * (1 + \<epsilon>)"
    using E ratio_hi by (intro mult_left_mono) (simp_all add: \<epsilon>_def)
  finally have hi: "q \<le> E * (1 + \<epsilon>)" .
  from lo hi have "\<bar>q - E\<bar> \<le> E * \<epsilon>"
    by (simp add: abs_le_iff algebra_simps)
  then show ?thesis
    by (simp only: E_def \<epsilon>_def q_def times_divide_eq_right mult_1_right)
qed

text \<open>
  C8. For every table that has the column \<open>ica_category\<close>, with cells \<open>xs\<close>,
  \<open>plot_ica_distribution\<close> draws six bars, for the six labels of the canonical order
  Buena, Moderada, Da\<open>n_tilde\<close>ina para grupos sensibles, Da\<open>n_tilde\<close>ina, Muy
  da\<open>n_tilde\<close>ina, Peligrosa, in that order. The width of the bar of a label is the
  number of the cells that are that label, 0 for a label that the column does not hold.
  Each bar is annotated, at its row and one unit after its end, with its count and with
  the share of its count in the total of the six counts: a float within a relative
  error of \<open>1 / 10 ^ 15\<close> of the count divided by the total, or \<open>nan\<close> when the total is 0.
  Then the chart is saved, if a save path is given, and shown.
\<close>

theorem plot_ica_distribution_bars:
  assumes "map_of (cols df) ''ica_category'' = Some xs"
    and "counts = map (\<lambda>l. int (count_list xs (StrV l))) orden_ica"
  shows "\<exists>shares.
           plot_ica_distribution ICA_COLORS df save_path =
             [Figure,
              Barh orden_ica counts
                (map (\<lambda>cat. case ICA_COLORS cat of None \<Rightarrow> ''#CCCCCC'' | Some c \<Rightarrow> c) orden_ica)]
             @ map (\<lambda>i. Text (counts ! i + 1) i (counts ! i) (shares ! i)) [0..<6]
             @ savefig save_path
             @ [Show]
         \<and> length shares = 6
         \<and> (\<forall>i < 6. if sum_list counts = 0 then shares ! i = None
                     else \<exists>r. shares ! i = Some r
                            \<and> \<bar>r - of_int (counts ! i) / of_int (sum_list counts)\<bar>
                                \<le> of_int (counts ! i) / of_int (sum_list counts) / 10 ^ 15)
         \<and> orden_ica =
             [''Buena'', ''Moderada'', ''Da'' @ n_tilde @ ''ina para grupos sensibles'',
              ''Da'' @ n_tilde @ ''ina'', ''Muy da'' @ n_tilde @ ''ina'', ''Peligrosa'']
         \<and> length counts = 6"
proof -
  define share where "share v =
    (if sum_list counts = 0 then None
     else Some (fdiv (float_of_int v) (float_of_int (sum_list counts))))" for v
  define shares where "shares = map share counts"
  have counts: "reindex orden_ica (value_counts True xs) 0 = counts"
    by (simp add: reindex_value_counts assms(2))
  have len: "length counts = 6"
    by (simp add: assms(2) length_orden_ica)
  have nonneg: "\<forall>v \<in> set counts. 0 \<le> v"
    by (auto simp: assms(2))
  then have sum_nonneg: "0 \<le> sum_list counts"
    by (simp add: sum_list_nonneg)
  have texts: "map (\<lambda>i. Text (counts ! i + 1) i (counts ! i) (share (counts ! i))) [0..<6]
             = map (\<lambda>i. Text (counts ! i + 1) i (counts ! i) (shares ! i)) [0..<6]"
    using len by (intro map_cong) (simp_all add: shares_def)
  have events: "plot_ica_distribution ICA_COLORS df save_path =
             [Figure,
              Barh orden_ica counts
                (map (\<lambda>cat. case ICA_COLORS cat of None \<Rightarrow> ''#CCCCCC'' | Some c \<Rightarrow> c) orden_ica)]
             @ map (\<lambda>i. Text (counts ! i + 1) i (counts ! i) (share (counts ! i))) [0..<6]
             @ savefig save_path
             @ [Show]"
    unfolding plot_ica_distribution_def assms(1) option.case Let_def counts map_enumerate len share_def
    by (rule refl)
  have shares_len: "length shares = 6"
    by (simp add: shares_def len)
  have close: "\<forall>i < 6. if sum_list counts = 0 then shares ! i = None
                     else \<exists>r. shares ! i = Some r
                            \<and> \<bar>r - of_int (counts ! i) / of_int (sum_list counts)\<bar>
                                \<le> of_int (counts ! i) / of_int (sum_list counts) / 10 ^ 15"
  proof (intro allI impI)
    fix i :: nat assume i: "i < 6"
    then have mem: "counts ! i \<in> set counts"
      using len by simp
    then have v: "0 \<le> counts ! i"
      using nonneg by blast
    have nth: "shares ! i = share (counts ! i)"
      using i len by (simp add: shares_def)
    show "if sum_list counts = 0 then shares ! i = None
          else \<exists>r. shares ! i = Some r
                 \<and> \<bar>r - of_int (counts ! i) / of_int (sum_list counts)\<bar>
                     \<le> of_int (counts ! i) / of_int (sum_list counts) / 10 ^ 15"
    proof (cases "sum_list counts = 0")
      case True
      then show ?thesis
        by (simp add: nth share_def)
    next
      case False
      with sum_nonneg have pos: "0 < sum_list counts"
        by simp
      from ratio_error [OF v pos] False show ?thesis
        by (simp add: nth share_def)
    qed
  qed
  have order: "orden_ica =
           [''Buena'', ''Moderada'', ''Da'' @ n_tilde @ ''ina para grupos sensibles'',
            ''Da'' @ n_tilde @ ''ina'', ''Muy da'' @ n_tilde @ ''ina'', ''Peligrosa'']"
    by (simp add: orden_ica_def)
  show ?thesis
    by (rule exI [of _ shares]) (use events texts shares_len close order len in \<open>simp only: simp_thms\<close>)
qed

theorem plot_ica_distribution_bars_witness:
  "map_of (cols example_table) ''ica_category''
     = Some [StrV ''Buena'', StrV ''Buena'', StrV ''Moderada'', NoneV]
   \<and> [2, 1, 0, 0, 0, 0]
       = map (\<lambda>l. int (count_list [StrV ''Buena'', StrV ''Buena'', StrV ''Moderada'', NoneV] (StrV l)))
           orden_ica
   \<and> (\<exists>shares.
         plot_ica_distribution [''Buena'' \<mapsto> ''#2ECC71''] example_table (Some ''ica.png'') =
           [Figure,
            Barh orden_ica [2, 1, 0, 0, 0, 0]
              (map (\<lambda>cat. case [''Buena'' \<mapsto> ''#2ECC71''] cat of None \<Rightarrow> ''#CCCCCC'' | Some c \<Rightarrow> c)
                 orden_ica)]
           @ map (\<lambda>i. Text ([2, 1, 0, 0, 0, 0] ! i + 1) i ([2, 1, 0, 0, 0, 0] ! i) (shares ! i)) [0..<6]
           @ savefig (Some ''ica.png'')
           @ [Show]
       \<and> length shares = 6
       \<and> (\<forall>i < 6. if sum_list [2, 1, 0, 0, 0, 0 :: int] = 0 then shares ! i = None
                   else \<exists>r. shares ! i = Some r
                          \<and> \<bar>r - of_int ([2, 1, 0, 0, 0, 0] ! i) / of_int (sum_list [2, 1, 0, 0, 0, 0])\<bar>
                              \<le> of_int ([2, 1, 0, 0, 0, 0] ! i) / of_int (sum_list [2, 1, 0, 0, 0, 0])
                                  / 10 ^ 15)
       \<and> orden_ica =
           [''Buena'', ''Moderada'', ''Da'' @ n_tilde @ ''ina para grupos sensibles'',
            ''Da'' @ n_tilde @ ''ina'', ''Muy da'' @ n_tilde @ ''ina'', ''Peligrosa'']
       \<and> length [2, 1, 0, 0, 0, 0 :: int] = 6)"
proof -
  have col: "map_of (cols example_table) ''ica_category''
     = Some [StrV ''Buena'', StrV ''Buena'', StrV ''Moderada'', NoneV]"
    by (simp add: example_table_def)
  have counts: "[2, 1, 0, 0, 0, 0]
       = map (\<lambda>l. int (count_list [StrV ''Buena'', StrV ''Buena'', StrV ''Moderada'', NoneV] (StrV l)))
           orden_ica"
    by (simp add: orden_ica_def n_tilde_def)
  from col counts plot_ica_distribution_bars [OF col counts] show ?thesis
    by (intro conjI)
qed

text \<open>
  On the example the bars are 2, 1, 0, 0, 0, 0 (the missing cell is not counted), and the
  shares are the floats nearest to \<open>2 / 3\<close> and \<open>1 / 3\<close>, and 0.
\<close>

lemma plot_ica_distribution_example:
  "plot_ica_distribution [''Buena'' \<mapsto> ''#2ECC71''] example_table (Some ''ica.png'') =
     [Figure,
      Barh orden_ica [2, 1, 0, 0, 0, 0]
        [''#2ECC71'', ''#CCCCCC'', ''#CCCCCC'', ''#CCCCCC'', ''#CCCCCC'', ''#CCCCCC''],
      Text 3 0 2 (Some (6004799503160661 / 9007199254740992)),
      Text 2 1 1 (Some (6004799503160661 / 18014398509481984)),
      Text 1 2 0 (Some 0), Text 1 3 0 (Some 0), Text 1 4 0 (Some 0), Text 1 5 0 (Some 0),
      Savefig ''ica.png'', Show]"
  by code_simp

section \<open>plot_correlation_matrix\<close>

lemma filter_columns_existing:
  "\<forall>c \<in> set (filter (\<lambda>c. c \<in> set (columns df)) requested). c \<in> set (columns df)"
  by simp

lemma select_columns_labels:
  assumes "\<forall>c \<in> set cs. c \<in> set (columns df)"
  shows "map fst (select_columns df cs) = cs"
  using assms
proof (induction cs)
  case Nil
  show ?case by (simp add: select_columns_def List.map_filter_simps)
next
  case (Cons c cs)
  have "map_of (cols df) c \<noteq> None"
    using Cons.prems by (simp add: not_in_columns_iff)
  then obtain xs where "map_of (cols df) c = Some xs"
    by blast
  with Cons show ?case
    by (simp add: select_columns_def List.map_filter_simps)
qed

lemma select_columns_entry:
  "(c, xs) \<in> set (select_columns df cs) \<longleftrightarrow> c \<in> set cs \<and> map_of (cols df) c = Some xs"
  unfolding select_columns_def
  by (induction cs) (auto simp: List.map_filter_simps split: option.splits)

lemma those_eq_Some: "those xs = Some ys \<longleftrightarrow> xs = map Some ys"
  by (induction xs arbitrary: ys) (auto split: option.splits)

lemma those_eq_None: "those xs = None \<longleftrightarrow> None \<in> set xs"
  by (induction xs) (auto split: option.splits)

lemma those_map_None: "those (map g xs) = None \<longleftrightarrow> (\<exists>x \<in> set xs. g x = None)"
  by (induction xs) (auto split: option.splits)

lemma to_numpy_float_None:
  "to_numpy_float float_of_str sub = None
     \<longleftrightarrow> (\<exists>p \<in> set sub. \<exists>x \<in> set (snd p). to_float float_of_str x = None)"
  by (simp add: to_numpy_float_def those_map_None case_prod_unfold)

lemma to_numpy_float_Some:
  "to_numpy_float float_of_str sub = Some mat
     \<Longrightarrow> list_all2 (\<lambda>p q. fst q = fst p \<and> map (to_float float_of_str) (snd p) = map Some (snd q)) sub mat"
proof (induction sub arbitrary: mat)
  case Nil
  then show ?case
    by (simp add: to_numpy_float_def)
next
  case (Cons p sub)
  from Cons.prems obtain fxs rest where fxs: "those (map (to_float float_of_str) (snd p)) = Some fxs"
    and rest: "to_numpy_float float_of_str sub = Some rest"
    and mat: "mat = (fst p, fxs) # rest"
    by (auto simp: to_numpy_float_def case_prod_unfold split: option.splits)
  from fxs have "map (to_float float_of_str) (snd p) = map Some fxs"
    by (simp add: those_eq_Some)
  with Cons.IH [OF rest] show ?case
    by (simp add: mat)
qed

lemma to_numpy_float_labels:
  assumes "to_numpy_float float_of_str sub = Some mat"
  shows "map fst mat = map fst sub"
proof -
  have "list_all2 (\<lambda>p q. fst q = fst p) sub mat"
    using to_numpy_float_Some [OF assms] by (rule list_all2_mono) simp
  then show ?thesis
    by (induction rule: list_all2_induct) simp_all
qed

lemma to_numpy_float_entry:
  assumes "to_numpy_float float_of_str sub = Some mat" and "(c, fxs) \<in> set mat"
  shows "\<exists>xs. (c, xs) \<in> set sub \<and> map (to_float float_of_str) xs = map Some fxs"
proof -
  from assms(2) obtain i where i: "i < length mat" and nth: "mat ! i = (c, fxs)"
    by (auto simp: in_set_conv_nth)
  from to_numpy_float_Some [OF assms(1)] have len: "length sub = length mat"
    and all: "\<forall>i < length mat. fst (mat ! i) = fst (sub ! i)
                \<and> map (to_float float_of_str) (snd (sub ! i)) = map Some (snd (mat ! i))"
    by (auto simp: list_all2_conv_all_nth)
  from all i nth have "fst (sub ! i) = c"
    and floats: "map (to_float float_of_str) (snd (sub ! i)) = map Some fxs"
    by auto
  moreover have "sub ! i \<in> set sub"
    using i len by simp
  ultimately have "(c, snd (sub ! i)) \<in> set sub"
    by (metis prod.collapse)
  with floats show ?thesis
    by blast
qed

lemma corr_Some:
  assumes "to_numpy_float float_of_str sub = Some mat"
  shows "corr float_of_str pearson sub
           = Some (map (\<lambda>(c, xs). (c, map (\<lambda>(r, ys). (r, pearson ys xs)) mat)) mat)"
  using assms by (simp add: corr_def)

lemma corr_None:
  assumes "to_numpy_float float_of_str sub = None"
  shows "corr float_of_str pearson sub = None"
  using assms by (simp add: corr_def)

text \<open>The matrix of a table of floats: its labels and its entries.\<close>

lemma matrix_labels:
  "map fst (map (\<lambda>(c, xs). (c, map (\<lambda>(r, ys). (r, pearson ys xs)) mat)) mat) = map fst mat"
  by (simp add: comp_def case_prod_unfold)

lemma matrix_entry:
  assumes "(c, col) \<in> set (map (\<lambda>(c, xs). (c, map (\<lambda>(r, ys). (r, pearson ys xs)) mat)) mat)"
  shows "map fst col = map fst mat
       \<and> (\<forall>(r, v) \<in> set col. \<exists>fxs fys. (c, fxs) \<in> set mat \<and> (r, fys) \<in> set mat \<and> v = pearson fys fxs)"
proof -
  from assms obtain fxs where fxs: "(c, fxs) \<in> set mat"
    and col: "col = map (\<lambda>(r, ys). (r, pearson ys fxs)) mat"
    by auto
  have "map fst col = map fst mat"
    by (simp add: col comp_def case_prod_unfold)
  moreover have "\<exists>fxs fys. (c, fxs) \<in> set mat \<and> (r, fys) \<in> set mat \<and> v = pearson fys fxs"
    if "(r, v) \<in> set col" for r v
    using that fxs by (auto simp: col)
  ultimately show ?thesis
    by blast
qed

text \<open>The three courses of the function.\<close>

lemma plot_correlation_matrix_few:
  assumes "cs = filter (\<lambda>c. c \<in> set (columns df))
                  (case columnas of None \<Rightarrow> CONTAMINANTES | Some requested \<Rightarrow> requested)"
    and "length cs < 2"
  shows "plot_correlation_matrix float_of_str pearson df columnas save_path ref top_k print_top
           = ([Print msg_two_columns], Inr None)"
  using assms(2) unfolding plot_correlation_matrix_def Let_def assms(1) by simp

lemma plot_correlation_matrix_raises:
  assumes "cs = filter (\<lambda>c. c \<in> set (columns df))
                  (case columnas of None \<Rightarrow> CONTAMINANTES | Some requested \<Rightarrow> requested)"
    and "2 \<le> length cs"
    and "to_numpy_float float_of_str (select_columns df cs) = None"
  shows "plot_correlation_matrix float_of_str pearson df columnas save_path ref top_k print_top
           = ([], Inl ValueError)"
proof -
  have "\<not> length cs < 2"
    using assms(2) by simp
  then show ?thesis
    using corr_None [OF assms(3)]
    unfolding plot_correlation_matrix_def Let_def assms(1) by simp
qed

lemma plot_correlation_matrix_drawn:
  assumes "cs = filter (\<lambda>c. c \<in> set (columns df))
                  (case columnas of None \<Rightarrow> CONTAMINANTES | Some requested \<Rightarrow> requested)"
    and "2 \<le> length cs"
    and "to_numpy_float float_of_str (select_columns df cs) = Some mat"
    and "m = map (\<lambda>(c, xs). (c, map (\<lambda>(r, ys). (r, pearson ys xs)) mat)) mat"
  shows "plot_correlation_matrix float_of_str pearson df columnas save_path ref top_k print_top =
           (if print_top \<and> ref \<in> set (map fst m) then
              (if 1 < count_list (map fst m) ref
               then ([Figure, HeatmapCorr m] @ savefig save_path @ [Show], Inl TypeError)
               else
                 (case map_of m ref of
                    None \<Rightarrow> ([Figure, HeatmapCorr m] @ savefig save_path @ [Show], Inr (Some m))
                  | Some col \<Rightarrow>
                      (([Figure, HeatmapCorr m] @ savefig save_path @ [Show])
                         @ Print msg_top
                           # map (\<lambda>(k, v). PrintCorr k v) (top_correlations col ref top_k),
                       Inr (Some m))))
            else ([Figure, HeatmapCorr m] @ savefig save_path @ [Show], Inr (Some m)))"
proof -
  have "\<not> length cs < 2"
    using assms(2) by simp
  then show ?thesis
    using corr_Some [OF assms(3), of pearson]
    unfolding plot_correlation_matrix_def Let_def assms(1) assms(4) by simp
qed

lemma numeric_matrix:
  assumes "\<forall>c \<in> set cs. c \<in> set (columns df)"
    and "\<forall>c \<in> set cs. \<forall>xs. map_of (cols df) c = Some xs
           \<longrightarrow> (\<forall>x \<in> set xs. to_float float_of_str x \<noteq> None)"
  shows "\<exists>mat. to_numpy_float float_of_str (select_columns df cs) = Some mat \<and> map fst mat = cs"
proof -
  have "to_numpy_float float_of_str (select_columns df cs) \<noteq> None"
  proof
    assume "to_numpy_float float_of_str (select_columns df cs) = None"
    then obtain p x where p: "p \<in> set (select_columns df cs)" and x: "x \<in> set (snd p)"
      and none: "to_float float_of_str x = None"
      unfolding to_numpy_float_None by blast
    from p have "(fst p, snd p) \<in> set (select_columns df cs)"
      by simp
    then have "fst p \<in> set cs \<and> map_of (cols df) (fst p) = Some (snd p)"
      by (rule select_columns_entry [THEN iffD1])
    then have "fst p \<in> set cs" and "map_of (cols df) (fst p) = Some (snd p)"
      by blast+
    with assms(2) x have "to_float float_of_str x \<noteq> None"
      by blast
    with none show False
      by contradiction
  qed
  then obtain mat where mat: "to_numpy_float float_of_str (select_columns df cs) = Some mat"
    by blast
  have "map fst mat = cs"
    using to_numpy_float_labels [OF mat] select_columns_labels [OF assms(1)] by simp
  with mat show ?thesis
    by blast
qed

lemma matrix_of_table:
  assumes mat: "to_numpy_float float_of_str (select_columns df cs) = Some mat"
    and m: "m = map (\<lambda>(c, xs). (c, map (\<lambda>(r, ys). (r, pearson ys xs)) mat)) mat"
    and "(c, col) \<in> set m"
  shows "map fst col = map fst mat
       \<and> (\<forall>(r, v) \<in> set col. \<exists>xs ys fxs fys.
             map_of (cols df) c = Some xs \<and> map_of (cols df) r = Some ys
           \<and> map (to_float float_of_str) xs = map Some fxs
           \<and> map (to_float float_of_str) ys = map Some fys
           \<and> v = pearson fys fxs)"
proof -
  from assms(3) have entry: "map fst col = map fst mat
       \<and> (\<forall>(r, v) \<in> set col. \<exists>fxs fys. (c, fxs) \<in> set mat \<and> (r, fys) \<in> set mat \<and> v = pearson fys fxs)"
    unfolding m by (rule matrix_entry)
  have "\<exists>xs ys fxs fys.
             map_of (cols df) c = Some xs \<and> map_of (cols df) r = Some ys
           \<and> map (to_float float_of_str) xs = map Some fxs
           \<and> map (to_float float_of_str) ys = map Some fys
           \<and> v = pearson fys fxs"
    if "(r, v) \<in> set col" for r v
  proof -
    from entry that obtain fxs fys where fxs: "(c, fxs) \<in> set mat" and fys: "(r, fys) \<in> set mat"
      and v: "v = pearson fys fxs"
      by blast
    from to_numpy_float_entry [OF mat fxs] obtain xs where
      xs: "(c, xs) \<in> set (select_columns df cs)" "map (to_float float_of_str) xs = map Some fxs"
      by blast
    from to_numpy_float_entry [OF mat fys] obtain ys where
      ys: "(r, ys) \<in> set (select_columns df cs)" "map (to_float float_of_str) ys = map Some fys"
      by blast
    from xs(1) ys(1) have "map_of (cols df) c = Some xs" and "map_of (cols df) r = Some ys"
      by (simp_all add: select_columns_entry)
    with xs(2) ys(2) v show ?thesis
      by blast
  qed
  with entry show ?thesis
    by blast
qed

text \<open>
  C6, as amended. Let \<open>cs\<close> be the requested columns (the default pollutants when none
  are requested) that are columns of the table, in the order and with the repetitions of
  the request. If \<open>cs\<close> has fewer than 2 entries, \<open>plot_correlation_matrix\<close> prints the
  warning and returns \<open>None\<close>, and draws nothing. Otherwise, if a cell of one of these
  columns is a string that \<open>float\<close> rejects, the function raises \<open>ValueError\<close> and draws
  nothing. Otherwise every cell of these columns is a number or missing: the function
  draws the heatmap of a matrix \<open>m\<close>, saves it if a save path is given, and shows it; \<open>m\<close>
  has exactly the columns \<open>cs\<close> and, in each column, exactly the rows \<open>cs\<close>, the entry of
  column \<open>c\<close> and row \<open>r\<close> being the estimator applied to the floats of the columns \<open>r\<close> and
  \<open>c\<close> of the table; and \<open>m\<close> is returned, unless the top correlations are to be printed
  and the reference occurs more than once in \<open>cs\<close>, when \<open>TypeError\<close> is raised after the
  drawing.
\<close>

theorem plot_correlation_matrix_result:
  assumes "cs = filter (\<lambda>c. c \<in> set (columns df))
                  (case columnas of None \<Rightarrow> CONTAMINANTES | Some requested \<Rightarrow> requested)"
  shows "(length cs < 2 \<longrightarrow>
            plot_correlation_matrix float_of_str pearson df columnas save_path ref top_k print_top
              = ([Print msg_two_columns], Inr None))
       \<and> (2 \<le> length cs
            \<and> (\<exists>c \<in> set cs. \<exists>xs. map_of (cols df) c = Some xs
                  \<and> (\<exists>x \<in> set xs. to_float float_of_str x = None))
          \<longrightarrow> plot_correlation_matrix float_of_str pearson df columnas save_path ref top_k print_top
                = ([], Inl ValueError))
       \<and> (2 \<le> length cs
            \<and> (\<forall>c \<in> set cs. \<forall>xs. map_of (cols df) c = Some xs
                  \<longrightarrow> (\<forall>x \<in> set xs. to_float float_of_str x \<noteq> None))
          \<longrightarrow> (\<exists>m printed.
                 fst (plot_correlation_matrix float_of_str pearson df columnas save_path ref top_k
                        print_top)
                   = [Figure, HeatmapCorr m] @ savefig save_path @ [Show] @ printed
               \<and> snd (plot_correlation_matrix float_of_str pearson df columnas save_path ref top_k
                        print_top)
                   = (if print_top \<and> 1 < count_list cs ref then Inl TypeError else Inr (Some m))
               \<and> map fst m = cs
               \<and> (\<forall>(c, col) \<in> set m.
                     map fst col = cs
                   \<and> (\<forall>(r, v) \<in> set col. \<exists>xs ys fxs fys.
                          map_of (cols df) c = Some xs \<and> map_of (cols df) r = Some ys
                        \<and> map (to_float float_of_str) xs = map Some fxs
                        \<and> map (to_float float_of_str) ys = map Some fys
                        \<and> v = pearson fys fxs))))"
proof (intro conjI impI)
  let ?result = "plot_correlation_matrix float_of_str pearson df columnas save_path ref top_k print_top"
  have existing: "\<forall>c \<in> set cs. c \<in> set (columns df)"
    unfolding assms by (rule filter_columns_existing)
  {
    assume "length cs < 2"
    with assms show "?result = ([Print msg_two_columns], Inr None)"
      by (rule plot_correlation_matrix_few)
  next
    assume bad: "2 \<le> length cs
            \<and> (\<exists>c \<in> set cs. \<exists>xs. map_of (cols df) c = Some xs
                  \<and> (\<exists>x \<in> set xs. to_float float_of_str x = None))"
    then obtain c xs x where "c \<in> set cs" and "map_of (cols df) c = Some xs"
      and x: "x \<in> set xs" "to_float float_of_str x = None"
      by blast
    then have "(c, xs) \<in> set (select_columns df cs)"
      by (simp add: select_columns_entry)
    with x have "to_numpy_float float_of_str (select_columns df cs) = None"
      unfolding to_numpy_float_None by force
    with assms bad show "?result = ([], Inl ValueError)"
      by (intro plot_correlation_matrix_raises) simp_all
  next
    assume good: "2 \<le> length cs
            \<and> (\<forall>c \<in> set cs. \<forall>xs. map_of (cols df) c = Some xs
                  \<longrightarrow> (\<forall>x \<in> set xs. to_float float_of_str x \<noteq> None))"
    then have two: "2 \<le> length cs"
      and numeric: "\<forall>c \<in> set cs. \<forall>xs. map_of (cols df) c = Some xs
                  \<longrightarrow> (\<forall>x \<in> set xs. to_float float_of_str x \<noteq> None)"
      by simp_all
    from numeric_matrix [OF existing numeric] obtain mat
      where mat: "to_numpy_float float_of_str (select_columns df cs) = Some mat"
        and labels: "map fst mat = cs"
      by blast
    define m where "m = map (\<lambda>(c, xs). (c, map (\<lambda>(r, ys). (r, pearson ys xs)) mat)) mat"
    define drawn where "drawn = [Figure, HeatmapCorr m] @ savefig save_path @ [Show]"
    have m_labels: "map fst m = cs"
      unfolding m_def matrix_labels by (rule labels)
    have result: "?result =
           (if print_top \<and> ref \<in> set cs then
              (if 1 < count_list cs ref then (drawn, Inl TypeError)
               else
                 (case map_of m ref of
                    None \<Rightarrow> (drawn, Inr (Some m))
                  | Some col \<Rightarrow>
                      (drawn @ Print msg_top
                           # map (\<lambda>(k, v). PrintCorr k v) (top_correlations col ref top_k),
                       Inr (Some m))))
            else (drawn, Inr (Some m)))"
      unfolding plot_correlation_matrix_drawn [OF assms two mat m_def] m_labels drawn_def
      by (rule refl)
    have absent: "count_list cs ref = 0" if "ref \<notin> set cs"
      using that by (simp add: count_list_0_iff)
    have events: "\<exists>printed. fst ?result = drawn @ printed"
      unfolding result by (simp split: option.splits)
    have returned: "snd ?result
                      = (if print_top \<and> 1 < count_list cs ref then Inl TypeError else Inr (Some m))"
      unfolding result using absent by (auto split: option.splits)
    have entries: "\<forall>(c, col) \<in> set m.
                     map fst col = cs
                   \<and> (\<forall>(r, v) \<in> set col. \<exists>xs ys fxs fys.
                          map_of (cols df) c = Some xs \<and> map_of (cols df) r = Some ys
                        \<and> map (to_float float_of_str) xs = map Some fxs
                        \<and> map (to_float float_of_str) ys = map Some fys
                        \<and> v = pearson fys fxs)"
      using matrix_of_table [OF mat m_def] labels by fastforce
    from events obtain printed where "fst ?result = drawn @ printed"
      by blast
    then have "fst ?result = [Figure, HeatmapCorr m] @ savefig save_path @ [Show] @ printed"
      by (simp add: drawn_def)
    with returned m_labels entries
    show "\<exists>m printed.
                 fst ?result = [Figure, HeatmapCorr m] @ savefig save_path @ [Show] @ printed
               \<and> snd ?result
                   = (if print_top \<and> 1 < count_list cs ref then Inl TypeError else Inr (Some m))
               \<and> map fst m = cs
               \<and> (\<forall>(c, col) \<in> set m.
                     map fst col = cs
                   \<and> (\<forall>(r, v) \<in> set col. \<exists>xs ys fxs fys.
                          map_of (cols df) c = Some xs \<and> map_of (cols df) r = Some ys
                        \<and> map (to_float float_of_str) xs = map Some fxs
                        \<and> map (to_float float_of_str) ys = map Some fys
                        \<and> v = pearson fys fxs))"
      by (intro exI conjI)
  }
qed

theorem plot_correlation_matrix_result_witness:
  "plot_correlation_matrix not_a_number same_or_zero example_table
     (Some [''pm2_5'', ''humedad'']) (Some ''matriz.png'') ''pm2_5'' 5 True
     = ([Print msg_two_columns], Inr None)
   \<and> plot_correlation_matrix not_a_number same_or_zero example_table
       (Some [''pm2_5'', ''ica_category'']) (Some ''matriz.png'') ''pm2_5'' 5 True
     = ([], Inl ValueError)
   \<and> (\<exists>m printed.
         fst (plot_correlation_matrix not_a_number same_or_zero example_table
                (Some [''pm2_5'', ''humedad'', ''co'']) (Some ''matriz.png'') ''pm2_5'' 5 True)
           = [Figure, HeatmapCorr m] @ savefig (Some ''matriz.png'') @ [Show] @ printed
       \<and> snd (plot_correlation_matrix not_a_number same_or_zero example_table
                (Some [''pm2_5'', ''humedad'', ''co'']) (Some ''matriz.png'') ''pm2_5'' 5 True)
           = (if True \<and> 1 < count_list [''pm2_5'', ''co''] ''pm2_5'' then Inl TypeError
              else Inr (Some m))
       \<and> map fst m = [''pm2_5'', ''co'']
       \<and> (\<forall>(c, col) \<in> set m.
             map fst col = [''pm2_5'', ''co'']
           \<and> (\<forall>(r, v) \<in> set col. \<exists>xs ys fxs fys.
                  map_of (cols example_table) c = Some xs \<and> map_of (cols example_table) r = Some ys
                \<and> map (to_float not_a_number) xs = map Some fxs
                \<and> map (to_float not_a_number) ys = map Some fys
                \<and> v = same_or_zero fys fxs)))"
proof (intro conjI)
  have few: "[''pm2_5''] = filter (\<lambda>c. c \<in> set (columns example_table))
                (case Some [''pm2_5'', ''humedad''] of None \<Rightarrow> CONTAMINANTES | Some requested \<Rightarrow> requested)"
    by (simp add: columns_example_table)
  have "length [''pm2_5''] < 2"
    by simp
  then show "plot_correlation_matrix not_a_number same_or_zero example_table
     (Some [''pm2_5'', ''humedad'']) (Some ''matriz.png'') ''pm2_5'' 5 True
     = ([Print msg_two_columns], Inr None)"
    by (rule plot_correlation_matrix_result [OF few, THEN conjunct1, THEN mp])
next
  have strings: "[''pm2_5'', ''ica_category''] = filter (\<lambda>c. c \<in> set (columns example_table))
                (case Some [''pm2_5'', ''ica_category''] of None \<Rightarrow> CONTAMINANTES
                 | Some requested \<Rightarrow> requested)"
    by (simp add: columns_example_table)
  have col: "map_of (cols example_table) ''ica_category''
               = Some [StrV ''Buena'', StrV ''Buena'', StrV ''Moderada'', NoneV]"
    by (simp add: example_table_def)
  have cell: "to_float not_a_number (StrV ''Buena'') = None"
    by (simp add: to_float_def not_a_number_def)
  have "\<exists>x \<in> set [StrV ''Buena'', StrV ''Buena'', StrV ''Moderada'', NoneV].
          to_float not_a_number x = None"
    using cell by simp
  with col have "\<exists>xs. map_of (cols example_table) ''ica_category'' = Some xs
                  \<and> (\<exists>x \<in> set xs. to_float not_a_number x = None)"
    by blast
  then have "\<exists>c \<in> set [''pm2_5'', ''ica_category'']. \<exists>xs. map_of (cols example_table) c = Some xs
                  \<and> (\<exists>x \<in> set xs. to_float not_a_number x = None)"
    by simp
  then have "2 \<le> length [''pm2_5'', ''ica_category'']
           \<and> (\<exists>c \<in> set [''pm2_5'', ''ica_category'']. \<exists>xs. map_of (cols example_table) c = Some xs
                  \<and> (\<exists>x \<in> set xs. to_float not_a_number x = None))"
    by simp
  then show "plot_correlation_matrix not_a_number same_or_zero example_table
       (Some [''pm2_5'', ''ica_category'']) (Some ''matriz.png'') ''pm2_5'' 5 True
     = ([], Inl ValueError)"
    by (rule plot_correlation_matrix_result [OF strings, THEN conjunct2, THEN conjunct1, THEN mp])
next
  have numbers: "[''pm2_5'', ''co''] = filter (\<lambda>c. c \<in> set (columns example_table))
                (case Some [''pm2_5'', ''humedad'', ''co''] of None \<Rightarrow> CONTAMINANTES
                 | Some requested \<Rightarrow> requested)"
    by (simp add: columns_example_table)
  have pm: "map_of (cols example_table) ''pm2_5'' = Some [FloatV 3, FloatV 1, FloatV 3, FloatV 1]"
    by (simp add: example_table_def)
  have co: "map_of (cols example_table) ''co'' = Some [FloatV 3, FloatV 3, FloatV 1, FloatV 1]"
    by (simp add: example_table_def)
  have "\<forall>c \<in> set [''pm2_5'', ''co'']. \<forall>xs. map_of (cols example_table) c = Some xs
                  \<longrightarrow> (\<forall>x \<in> set xs. to_float not_a_number x \<noteq> None)"
    unfolding list.set ball_simps pm co option.inject by (auto simp: to_float_def)
  then have "2 \<le> length [''pm2_5'', ''co'']
            \<and> (\<forall>c \<in> set [''pm2_5'', ''co'']. \<forall>xs. map_of (cols example_table) c = Some xs
                  \<longrightarrow> (\<forall>x \<in> set xs. to_float not_a_number x \<noteq> None))"
    by simp
  then show "\<exists>m printed.
         fst (plot_correlation_matrix not_a_number same_or_zero example_table
                (Some [''pm2_5'', ''humedad'', ''co'']) (Some ''matriz.png'') ''pm2_5'' 5 True)
           = [Figure, HeatmapCorr m] @ savefig (Some ''matriz.png'') @ [Show] @ printed
       \<and> snd (plot_correlation_matrix not_a_number same_or_zero example_table
                (Some [''pm2_5'', ''humedad'', ''co'']) (Some ''matriz.png'') ''pm2_5'' 5 True)
           = (if True \<and> 1 < count_list [''pm2_5'', ''co''] ''pm2_5'' then Inl TypeError
              else Inr (Some m))
       \<and> map fst m = [''pm2_5'', ''co'']
       \<and> (\<forall>(c, col) \<in> set m.
             map fst col = [''pm2_5'', ''co'']
           \<and> (\<forall>(r, v) \<in> set col. \<exists>xs ys fxs fys.
                  map_of (cols example_table) c = Some xs \<and> map_of (cols example_table) r = Some ys
                \<and> map (to_float not_a_number) xs = map Some fxs
                \<and> map (to_float not_a_number) ys = map Some fys
                \<and> v = same_or_zero fys fxs))"
    by (rule plot_correlation_matrix_result [OF numbers, THEN conjunct2, THEN conjunct2, THEN mp])
qed

text \<open>
  The matrix is not always returned: asked for the two columns \<open>pm2_5\<close> and
  \<open>ica_category\<close>, which the table both has, the function raises \<open>ValueError\<close>, because the
  categories are strings that are not numbers; nothing is drawn and nothing is returned.
\<close>

theorem plot_correlation_matrix_strings_raise:
  "''pm2_5'' \<in> set (columns example_table)
   \<and> ''ica_category'' \<in> set (columns example_table)
   \<and> plot_correlation_matrix not_a_number same_or_zero example_table
       (Some [''pm2_5'', ''ica_category'']) None ''pm2_5'' 5 True
     = ([], Inl ValueError)"
  by code_simp

text \<open>On two columns of numbers the matrix is drawn and returned, and the top is printed.\<close>

lemma plot_correlation_matrix_example:
  "plot_correlation_matrix not_a_number same_or_zero example_table
     (Some [''pm2_5'', ''humedad'', ''co'']) (Some ''matriz.png'') ''pm2_5'' 5 True
   = ([Figure,
       HeatmapCorr [(''pm2_5'', [(''pm2_5'', Some 1), (''co'', Some 0)]),
                    (''co'', [(''pm2_5'', Some 0), (''co'', Some 1)])],
       Savefig ''matriz.png'',
       Show,
       Print msg_top,
       PrintCorr ''co'' 0],
      Inr (Some [(''pm2_5'', [(''pm2_5'', Some 1), (''co'', Some 0)]),
                 (''co'', [(''pm2_5'', Some 0), (''co'', Some 1)])]))"
  by code_simp

section \<open>plot_correlation_matrix: the top correlations\<close>











text \<open>The lines printed on the example with the default \<open>top_k = 5\<close> and with \<open>top_k = 1\<close>.\<close>

lemma plot_correlation_matrix_top_example:
  "drop 3 (fst (plot_correlation_matrix not_a_number same_or_zero example_table None None
                  ''pm2_5'' 5 True))
     = [Print msg_top, PrintCorr ''pm10'' 1, PrintCorr ''co'' 0, PrintCorr ''no'' 0]
   \<and> drop 3 (fst (plot_correlation_matrix not_a_number same_or_zero example_table None None
                  ''pm2_5'' 1 True))
     = [Print msg_top, PrintCorr ''pm10'' 1]"
  by code_simp

end
